theory Spec2Isabelle
  imports Main "HOL-Library.Word" "HOL-Library.AList"
begin

section \<open>The encoding module of vaex: values and errors\<close>

text \<open>
  The module \<^verbatim>\<open>packages/vaex-core/vaex/encoding.py\<close> is embedded function by function.
  A raised Python exception is the left injection of a sum; mutation of the module's
  registry or of an \<^verbatim>\<open>Encoding\<close> object is explicit state passing.
\<close>

datatype py_error =
    AssertionError
  | KeyError
  | IndexError
  | StructError
  | OverflowError
  | ValueError
  | TypeError
  | AttributeError
  | UnicodeDecodeError
  | UnicodeEncodeError
  | MaskError
  | JSONDecodeError
  | ArrowError

text \<open>
  A Python \<^verbatim>\<open>bytes\<close> value is a list of octets. A Python \<^verbatim>\<open>str\<close> is a sequence of
  Unicode code points, so it is a list of naturals; \<open>lit\<close> turns a literal of the source
  (always ASCII there) into that representation.
\<close>

type_synonym byte = "8 word"
type_synonym bytes = "byte list"
type_synonym pystr = "nat list"

definition lit :: "string \<Rightarrow> pystr" where
  "lit s = map of_char s"

definition startswith :: "pystr \<Rightarrow> pystr \<Rightarrow> bool" where
  "startswith s p = (take (length p) s = p)"

text \<open>
  Python values. The module inspects its arguments with \<^verbatim>\<open>isinstance\<close> and passes some of
  them through untouched, so one type holds every value it handles: the JSON-native ones
  (\<^verbatim>\<open>None\<close>, booleans, integers, floats, strings, lists and dictionaries with string keys),
  tuples, \<^verbatim>\<open>bytes\<close>, numpy arrays, Arrow arrays, vaex data types, numpy scalars, ordered
  sets, and \<open>PObject\<close> for an instance of any class that no \<^verbatim>\<open>isinstance\<close> test of the module
  recognises. A float is its IEEE 754 bit pattern; a dictionary is an association list
  in insertion order.

  A numpy dtype is what the module reads of it: its \<^verbatim>\<open>kind\<close>, its \<^verbatim>\<open>itemsize\<close> and the text
  \<^verbatim>\<open>str(dtype)\<close>. A numpy array is its dtype, its shape, its contents and its mask. The
  contents are the bytes of the elements in C order (what \<^verbatim>\<open>memoryview(a).tobytes()\<close>
  copies), or for an array of dtype \<^verbatim>\<open>object\<close> the value of \<^verbatim>\<open>a.tolist()\<close>. The mask is
  \<open>NotMasked\<close> for a plain \<^verbatim>\<open>ndarray\<close>; for a \<^verbatim>\<open>numpy.ma.MaskedArray\<close> it is what \<^verbatim>\<open>a.mask\<close>
  returns: the scalar \<^verbatim>\<open>numpy.ma.nomask\<close> or a boolean array, given by its shape and its
  bytes. An Arrow value is a \<^verbatim>\<open>pyarrow.Array\<close> or a \<^verbatim>\<open>pyarrow.ChunkedArray\<close> (a list of
  arrays); what an array holds is left open (\<open>'a\<close>). A vaex \<^verbatim>\<open>DataType\<close> wraps a numpy
  dtype or an Arrow type, the latter given by its name \<^verbatim>\<open>str(type)\<close>. A numpy scalar carries
  whether its class is registered as a \<^verbatim>\<open>numbers.Number\<close> and the value of \<^verbatim>\<open>item()\<close>.
\<close>

record np_dtype =
  dt_kind :: char
  dt_itemsize :: nat
  dt_str :: pystr

datatype np_mask = NotMasked | NoMask | MaskArray "nat list" bytes

datatype 'a arrow = Array 'a | ChunkedArray "'a list"

datatype data_type = NumpyType np_dtype | ArrowType pystr

datatype ('a, 'o) py =
    PNone
  | PBool bool
  | PInt int
  | PFloat "64 word"
  | PStr pystr
  | PBytes bytes
  | PList "('a, 'o) py list"
  | PTuple "('a, 'o) py list"
  | PDict "(pystr \<times> ('a, 'o) py) list"
  | PNdarray np_dtype "nat list" "('a, 'o) nd_data" np_mask
  | PArrow "'a arrow"
  | PDataType data_type
  | PNpGeneric bool "('a, 'o) py" 'o
  | POrderedSet 'o
  | PObject 'o
and ('a, 'o) nd_data = Buffer bytes | Objects "('a, 'o) py"

section \<open>The registry\<close>

text \<open>
  \<^verbatim>\<open>
  registry = {}
  def register(name):
      def wrapper(cls):
          assert name not in registry
          registry[name] = cls
          return cls
      return wrapper
  \<close>
  The module-level dictionary is threaded through: \<open>register\<close> returns the outcome of the
  decorator (the class, or the assertion's failure) and the registry afterwards. The
  codec class is an opaque value of any type, so \<open>register\<close> cannot call into it.
\<close>

type_synonym 'c registry = "pystr \<rightharpoonup> 'c"

definition register :: "pystr \<Rightarrow> 'c \<Rightarrow> 'c registry \<Rightarrow> (py_error + 'c) \<times> 'c registry" where
  "register name cls registry =
     (if registry name \<noteq> None then (Inl AssertionError, registry)
      else (Inr cls, registry(name \<mapsto> cls)))"

text \<open>The tags the module registers while it is imported, in source order.\<close>

definition module_tags :: "pystr list" where
  "module_tags = map lit
     [''json'', ''vaex-task-result'', ''vaex-rmi-result'', ''vaex-evaluate-result'',
      ''array'', ''arrow-array'', ''ndarray'', ''numpy-scalar'', ''dtype'',
      ''dataframe-state'', ''selection'', ''function'', ''variable'', ''binner'',
      ''grid'', ''ordered-set'']"

section \<open>The session: blob store and object specs\<close>

text \<open>
  \<^verbatim>\<open>
  class Encoding:
      def __init__(self, next=None):
          self.registry = {**registry}
          self.blobs = {}
          self._object_specs = {}
          self._objects = {}
  \<close>
  Python dictionaries keep insertion order and \<^verbatim>\<open>binary.serialize\<close> reads that order, so
  the blob store is an association list; \<^verbatim>\<open>d[k] = v\<close> is \<open>AList.update\<close> (replace in
  place, or append). \<^verbatim>\<open>binary.deserialize\<close> fills the store with whatever keys the document
  lists and assigns to \<^verbatim>\<open>_object_specs\<close> whatever value the document holds, so the keys of
  the store and the table of object specs are values of \<open>py\<close>. (Python takes \<^verbatim>\<open>1\<close>, \<^verbatim>\<open>1.0\<close>
  and \<^verbatim>\<open>True\<close> for one key; they are three keys here. The module itself only ever uses
  strings.) The registry of a session is a copy of the module's.
\<close>

record ('a, 'o) session =
  session_blobs :: "(('a, 'o) py \<times> bytes) list"
  session_object_specs :: "('a, 'o) py"

definition new_session :: "('a, 'o) session" where
  "new_session = \<lparr>session_blobs = [], session_object_specs = PDict []\<rparr>"

text \<open>
  \<^verbatim>\<open>
  def add_blob(self, buffer):
      blob_id = str(uuid.uuid4())
      self.blobs[blob_id] = memoryview(buffer).tobytes()
      return f'blob:{blob_id}'
  \<close>
  \<^verbatim>\<open>uuid.uuid4()\<close> reads the operating system's random source. The text it yields is the
  argument \<open>uuid4\<close>: the caller of the model supplies what the generator drew. The buffer
  is given by the bytes that \<^verbatim>\<open>memoryview(buffer).tobytes()\<close> copies out of it.
\<close>

definition add_blob ::
  "pystr \<Rightarrow> bytes \<Rightarrow> ('a, 'o) session \<Rightarrow> pystr \<times> ('a, 'o) session" where
  "add_blob uuid4 buffer s =
     (let blob_id = uuid4
      in (lit ''blob:'' @ blob_id,
          s\<lparr>session_blobs := AList.update (PStr blob_id) buffer (session_blobs s)\<rparr>))"

text \<open>
  \<^verbatim>\<open>
  def get_blob(self, blob_ref):
      assert blob_ref.startswith('blob:')
      blob_id = blob_ref[5:]
      return self.blobs[blob_id]
  \<close>
  The reference comes out of a decoded tree, so it may be any value; of the values here
  only a string has \<^verbatim>\<open>startswith\<close> with a string argument (\<^verbatim>\<open>bytes\<close> has it for
  \<^verbatim>\<open>bytes\<close> arguments).
\<close>

definition get_blob :: "('a, 'o) py \<Rightarrow> ('a, 'o) session \<Rightarrow> py_error + bytes" where
  "get_blob blob_ref s =
     (case blob_ref of
        PStr r \<Rightarrow>
          if \<not> startswith r (lit ''blob:'') then Inl AssertionError
          else (let blob_id = drop 5 r
                in case map_of (session_blobs s) (PStr blob_id) of
                     None \<Rightarrow> Inl KeyError
                   | Some b \<Rightarrow> Inr b)
      | PBytes _ \<Rightarrow> Inl TypeError
      | _ \<Rightarrow> Inl AttributeError)"


section \<open>UTF-8\<close>

text \<open>
  \<^verbatim>\<open>str(b, encoding='utf-8')\<close> and \<^verbatim>\<open>b.decode('utf8')\<close> decode strictly: a byte that cannot
  start a character, a missing or wrong continuation byte, an overlong form, a surrogate
  and a code point beyond U+10FFFF each raise \<^verbatim>\<open>UnicodeDecodeError\<close> (\<open>None\<close> here).
  \<^verbatim>\<open>s.encode('utf8')\<close> raises \<^verbatim>\<open>UnicodeEncodeError\<close> on a surrogate. \<open>utf8_len\<close> is the length
  of the character that a first byte announces, 0 for a byte that starts none.
\<close>

definition utf8_cont :: "byte \<Rightarrow> bool" where
  "utf8_cont b = (128 \<le> unat b \<and> unat b < 192)"

definition utf8_len :: "byte \<Rightarrow> nat" where
  "utf8_len b =
     (let n = unat b in
      if n < 128 then 1
      else if 194 \<le> n \<and> n < 224 then 2
      else if 224 \<le> n \<and> n < 240 then 3
      else if 240 \<le> n \<and> n < 245 then 4
      else 0)"

definition utf8_tail :: "byte \<Rightarrow> nat" where
  "utf8_tail c = unat c - 128"

definition utf8_cp :: "bytes \<Rightarrow> nat option" where
  "utf8_cp cs =
     (case cs of
        [b] \<Rightarrow> Some (unat b)
      | [b, c1] \<Rightarrow>
          if utf8_cont c1 then Some ((unat b - 192) * 64 + utf8_tail c1) else None
      | [b, c1, c2] \<Rightarrow>
          (let cp = (unat b - 224) * 4096 + utf8_tail c1 * 64 + utf8_tail c2 in
           if utf8_cont c1 \<and> utf8_cont c2 \<and> 2048 \<le> cp \<and> \<not> (55296 \<le> cp \<and> cp < 57344)
           then Some cp else None)
      | [b, c1, c2, c3] \<Rightarrow>
          (let cp = (unat b - 240) * 262144 + utf8_tail c1 * 4096 + utf8_tail c2 * 64
                    + utf8_tail c3 in
           if utf8_cont c1 \<and> utf8_cont c2 \<and> utf8_cont c3 \<and> 65536 \<le> cp \<and> cp < 1114112
           then Some cp else None)
      | _ \<Rightarrow> None)"

function utf8_decode :: "bytes \<Rightarrow> pystr option" where
  "utf8_decode bs =
     (if bs = [] then Some []
      else (let k = utf8_len (hd bs) in
            if k = 0 \<or> length bs < k then None
            else (case utf8_cp (take k bs) of
                    None \<Rightarrow> None
                  | Some cp \<Rightarrow> map_option (Cons cp) (utf8_decode (drop k bs)))))"
  by pat_completeness auto
termination
  by (relation "measure length") auto

declare utf8_decode.simps [simp del]

definition utf8_encode_cp :: "nat \<Rightarrow> bytes option" where
  "utf8_encode_cp cp =
     (if cp < 128 then Some [of_nat cp]
      else if cp < 2048 then Some [of_nat (192 + cp div 64), of_nat (128 + cp mod 64)]
      else if 55296 \<le> cp \<and> cp < 57344 then None
      else if cp < 65536 then
        Some [of_nat (224 + cp div 4096), of_nat (128 + cp div 64 mod 64), of_nat (128 + cp mod 64)]
      else if cp < 1114112 then
        Some [of_nat (240 + cp div 262144), of_nat (128 + cp div 4096 mod 64),
              of_nat (128 + cp div 64 mod 64), of_nat (128 + cp mod 64)]
      else None)"

fun utf8_encode :: "pystr \<Rightarrow> bytes option" where
  "utf8_encode [] = Some []"
| "utf8_encode (cp # s) =
     (case utf8_encode_cp cp of
        None \<Rightarrow> None
      | Some bs \<Rightarrow> map_option (append bs) (utf8_encode s))"



section \<open>The binary envelope\<close>

subsection \<open>\<^verbatim>\<open>struct\<close>, \<^verbatim>\<open>io.BytesIO\<close> and slices\<close>

text \<open>
  The format character \<^verbatim>\<open>q\<close> is a signed 64-bit integer in the byte order of the machine
  that runs the code (native mode). The order is the parameter \<open>bo\<close> of everything that
  packs or unpacks; both directions run with the same one.
\<close>

datatype byteorder = LittleEndian | BigEndian

fun le_bytes :: "nat \<Rightarrow> int \<Rightarrow> bytes" where
  "le_bytes 0 x = []"
| "le_bytes (Suc n) x = word_of_int x # le_bytes n (x div 256)"

fun le_int :: "bytes \<Rightarrow> int" where
  "le_int [] = 0"
| "le_int (b # bs) = uint b + 256 * le_int bs"

text \<open>The value of a 64-bit pattern read as two's complement.\<close>

definition int64_wrap :: "int \<Rightarrow> int" where
  "int64_wrap x = (x + 2 ^ 63) mod 2 ^ 64 - 2 ^ 63"

definition in_int64 :: "int \<Rightarrow> bool" where
  "in_int64 x = (- (2 ^ 63) \<le> x \<and> x < 2 ^ 63)"

definition q_bytes :: "byteorder \<Rightarrow> int \<Rightarrow> bytes" where
  "q_bytes bo x = (case bo of LittleEndian \<Rightarrow> le_bytes 8 x | BigEndian \<Rightarrow> rev (le_bytes 8 x))"

definition q_value :: "byteorder \<Rightarrow> bytes \<Rightarrow> int" where
  "q_value bo bs = int64_wrap (le_int (case bo of LittleEndian \<Rightarrow> bs | BigEndian \<Rightarrow> rev bs))"

text \<open>
  \<^verbatim>\<open>struct.pack(f'{n}q', *vs)\<close> with \<open>n = len(vs)\<close>: \<^verbatim>\<open>struct.error\<close> when a value does not
  fit 64 bits, else the 8-byte fields one after the other.
\<close>

definition struct_pack_q :: "byteorder \<Rightarrow> int list \<Rightarrow> py_error + bytes" where
  "struct_pack_q bo vs =
     (if list_all in_int64 vs then Inr (concat (map (q_bytes bo) vs)) else Inl StructError)"

fun chunks8 :: "nat \<Rightarrow> bytes \<Rightarrow> bytes list" where
  "chunks8 0 bs = []"
| "chunks8 (Suc n) bs = take 8 bs # chunks8 n (drop 8 bs)"

text \<open>
  \<^verbatim>\<open>struct.unpack(f'{n}q', data)\<close>: a negative repeat count is not a format, and the buffer
  must hold exactly \<open>8 * n\<close> bytes; both are \<^verbatim>\<open>struct.error\<close>.
\<close>

definition struct_unpack_q :: "byteorder \<Rightarrow> int \<Rightarrow> bytes \<Rightarrow> py_error + int list" where
  "struct_unpack_q bo n data =
     (if n < 0 then Inl StructError
      else if int (length data) \<noteq> 8 * n then Inl StructError
      else Inr (map (q_value bo) (chunks8 (nat n) data)))"

text \<open>
  \<^verbatim>\<open>stream.read(n)\<close> on what is left of an \<^verbatim>\<open>io.BytesIO\<close>: at most \<open>n\<close> bytes, all of them
  for a negative \<open>n\<close>; the result is what was read and what is left. The argument is
  converted to the C type \<^verbatim>\<open>Py_ssize_t\<close>, 64 bits wide on the machines where \<^verbatim>\<open>q\<close> is native:
  an integer beyond \<^verbatim>\<open>sys.maxsize\<close>, or below \<^verbatim>\<open>-sys.maxsize - 1\<close>, raises
  \<^verbatim>\<open>OverflowError\<close>.
\<close>

definition bytesio_read :: "int \<Rightarrow> bytes \<Rightarrow> py_error + bytes \<times> bytes" where
  "bytesio_read n rest =
     (if \<not> in_int64 n then Inl OverflowError
      else if n < 0 then Inr (rest, [])
      else Inr (take (nat n) rest, drop (nat n) rest))"

text \<open>
  \<^verbatim>\<open>xs[i1:i2]\<close>: a negative index counts from the end, and both indices are clamped to
  the sequence; an empty range is the empty sequence.
\<close>

definition slice_index :: "int \<Rightarrow> nat \<Rightarrow> nat" where
  "slice_index i len =
     (if i < 0 then (if i + int len < 0 then 0 else nat (i + int len))
      else if i > int len then len else nat i)"

definition py_slice :: "'a list \<Rightarrow> int \<Rightarrow> int \<Rightarrow> 'a list" where
  "py_slice xs i1 i2 =
     (let start = slice_index i1 (length xs); stop = slice_index i2 (length xs)
      in take (stop - start) (drop start xs))"

subsection \<open>\<^verbatim>\<open>_pack_blobs\<close> and \<^verbatim>\<open>_unpack_blobs\<close>\<close>

text \<open>
  \<^verbatim>\<open>
  def _pack_blobs(*blobs):
      count = len(blobs)
      lenghts = [len(blob) for blob in blobs]
      stream = io.BytesIO()
      # header: <number of blobs>,<offset 0>, ... <offset N-1> with 8 byte unsigned ints
      header_length = 8 * (2 + count)
      offsets = (np.cumsum([0] + lenghts) + header_length).tolist()
      stream.write(struct.pack(f'{count+2}q', count, *offsets))
      for blob in blobs:
          stream.write(blob)
      bytes = stream.getvalue()
      assert offsets[-1] == len(bytes)
      return bytes
  \<close>
  \<^verbatim>\<open>np.cumsum\<close> of a list of Python integers is an array of the platform's default
  integer, \<^verbatim>\<open>int64\<close> where vaex runs: each partial sum, and the sum with
  \<^verbatim>\<open>header_length\<close>, wraps around at 64 bits. \<open>np_cumsum acc xs\<close> is the running
  sum of \<open>xs\<close> that starts from \<open>acc\<close>.
\<close>

fun np_cumsum :: "int \<Rightarrow> int list \<Rightarrow> int list" where
  "np_cumsum acc [] = []"
| "np_cumsum acc (x # xs) = (let s = int64_wrap (acc + x) in s # np_cumsum s xs)"

definition envelope_offsets :: "bytes list \<Rightarrow> int list" where
  "envelope_offsets blobs =
     (let count = int (length blobs);
          lenghts = map (\<lambda>blob. int (length blob)) blobs;
          header_length = 8 * (2 + count)
      in map (\<lambda>s. int64_wrap (s + header_length)) (np_cumsum 0 (0 # lenghts)))"

definition pack_blobs :: "byteorder \<Rightarrow> bytes list \<Rightarrow> py_error + bytes" where
  "pack_blobs bo blobs =
     (let count = int (length blobs);
          offsets = envelope_offsets blobs
      in case struct_pack_q bo (count # offsets) of
           Inl e \<Rightarrow> Inl e
         | Inr header \<Rightarrow>
             (let bytes = header @ concat blobs
              in if last offsets = int (length bytes) then Inr bytes
                 else Inl AssertionError))"

text \<open>
  \<^verbatim>\<open>
  def _unpack_blobs(bytes):
      stream = io.BytesIO(bytes)
      count, = struct.unpack('q', stream.read(8))
      offsets = struct.unpack(f'{count+1}q', stream.read(8 * (count + 1)))
      assert offsets[-1] == len(bytes)
      blobs = []
      for i1, i2 in zip(offsets[:-1], offsets[1:]):
          blobs.append(bytes[i1:i2])
      return blobs
  \<close>
  The arguments of \<^verbatim>\<open>struct.unpack\<close> are evaluated first, so a count for which
  \<open>8 * (count + 1)\<close> does not fit \<^verbatim>\<open>Py_ssize_t\<close> fails in \<^verbatim>\<open>stream.read\<close>. For \<open>count = -1\<close> the
  tuple of offsets is empty and \<^verbatim>\<open>offsets[-1]\<close> raises \<^verbatim>\<open>IndexError\<close>.
\<close>

definition unpack_blobs :: "byteorder \<Rightarrow> bytes \<Rightarrow> py_error + bytes list" where
  "unpack_blobs bo bytes =
     (case bytesio_read 8 bytes of
        Inl e \<Rightarrow> Inl e
      | Inr (b1, rest1) \<Rightarrow>
          (case struct_unpack_q bo 1 b1 of
             Inl e \<Rightarrow> Inl e
           | Inr cs \<Rightarrow>
               (let count = hd cs
                in case bytesio_read (8 * (count + 1)) rest1 of
                     Inl e \<Rightarrow> Inl e
                   | Inr (b2, rest2) \<Rightarrow>
                       (case struct_unpack_q bo (count + 1) b2 of
                          Inl e \<Rightarrow> Inl e
                        | Inr offsets \<Rightarrow>
                            if offsets = [] then Inl IndexError
                            else if last offsets \<noteq> int (length bytes)
                            then Inl AssertionError
                            else Inr (map (\<lambda>(i1, i2). py_slice bytes i1 i2)
                                        (zip (butlast offsets) (tl offsets)))))))"

subsection \<open>Notions the statements about the envelope use\<close>

text \<open>
  The offsets without wrap-around, from a start \<open>a\<close>; the length of all blobs together;
  the header \<open>_pack_blobs\<close> writes; and an envelope whose \<open>i\<close>-th offset field (the
  \<open>(i+1)\<close>-th header field, after the count) is overwritten by the eight bytes \<open>w\<close>.
\<close>

fun offs_from :: "int \<Rightarrow> bytes list \<Rightarrow> int list" where
  "offs_from a [] = [a]"
| "offs_from a (b # bs) = a # offs_from (a + int (length b)) bs"

definition total_length :: "bytes list \<Rightarrow> int" where
  "total_length blobs = int (length (concat blobs))"

definition envelope_header :: "byteorder \<Rightarrow> bytes list \<Rightarrow> bytes" where
  "envelope_header bo blobs =
     concat (map (q_bytes bo) (int (length blobs) # envelope_offsets blobs))"

definition set_header_offset :: "nat \<Rightarrow> bytes \<Rightarrow> bytes \<Rightarrow> bytes" where
  "set_header_offset i w env = take (8 * (i + 1)) env @ w @ drop (8 * (i + 2)) env"


section \<open>What the module calls in other libraries\<close>

text \<open>
  The codecs call numpy, pyarrow, the standard library and other modules of vaex. What
  those do is given by a tuple of functions, a parameter of every definition that needs
  one; a statement that depends on how a library behaves says so in a hypothesis. The
  tuple groups the identifier generator, numpy, pyarrow, other modules of vaex and
  \<^verbatim>\<open>json\<close>; its components are read by the selectors below.
  \<^item> \<open>ext_uuid4 n\<close>: the text of the \<open>n\<close>-th \<^verbatim>\<open>uuid.uuid4()\<close> that is drawn;
  \<^item> \<open>ext_np_dtype\<close>: \<^verbatim>\<open>np.dtype(type_spec)\<close>;
  \<^item> \<open>ext_np_array\<close>: \<^verbatim>\<open>np.array(data, dtype=...)\<close>, an array given by dtype, shape and
    contents;
  \<^item> \<open>ext_to_numpy_type\<close>: \<^verbatim>\<open>DataType.numpy\<close> of a data type that wraps the Arrow type of the
    given name (\<^verbatim>\<open>vaex/datatype.py\<close>);
  \<^item> \<open>ext_ipc_write\<close>: the bytes that the Arrow stream writer produces for the table with
    the one column \<^verbatim>\<open>x\<close>; \<open>ext_ipc_read_all\<close>: the table that the stream reader reads, as
    the list of its columns, each the list of its chunks; \<open>ext_pa_deserialize\<close>:
    \<^verbatim>\<open>pa.deserialize\<close>;
  \<^item> \<open>ext_from_dict\<close>: \<^verbatim>\<open>vaex.serialize.from_dict(spec, trusted=...)\<close>;
  \<^item> \<open>ext_other_encode\<close>, \<open>ext_other_decode\<close>: the codecs \<^verbatim>\<open>numpy-scalar\<close>, \<^verbatim>\<open>selection\<close>,
    \<^verbatim>\<open>binner\<close>, \<^verbatim>\<open>grid\<close>, \<^verbatim>\<open>ordered-set\<close> and the encoder of \<^verbatim>\<open>function\<close>, which work on objects
    of other modules;
  \<^item> \<open>ext_json_dumps\<close>, \<open>ext_json_loads\<close>: \<^verbatim>\<open>json.dumps\<close> and \<^verbatim>\<open>json.loads\<close>.
\<close>

type_synonym ('a, 'o) enc_state = "('a, 'o) session \<times> nat"

type_synonym ('a, 'o) np_externals =
  "(('a, 'o) py \<Rightarrow> py_error + np_dtype)
   \<times> (('a, 'o) py \<Rightarrow> np_dtype \<Rightarrow> py_error + np_dtype \<times> nat list \<times> ('a, 'o) nd_data)
   \<times> (pystr \<Rightarrow> py_error + np_dtype)"

type_synonym ('a, 'o) pa_externals =
  "('a arrow \<Rightarrow> py_error + bytes)
   \<times> (bytes \<Rightarrow> py_error + 'a list list)
   \<times> (bytes \<Rightarrow> py_error + ('a, 'o) py)"

type_synonym ('a, 'o) vaex_externals =
  "(('a, 'o) py \<Rightarrow> bool \<Rightarrow> py_error + ('a, 'o) py)
   \<times> (pystr \<Rightarrow> ('a, 'o) py \<Rightarrow> ('a, 'o) enc_state
        \<Rightarrow> (py_error + ('a, 'o) py) \<times> ('a, 'o) enc_state)
   \<times> (pystr \<Rightarrow> ('a, 'o) py \<Rightarrow> ('a, 'o) session \<Rightarrow> py_error + ('a, 'o) py)"

type_synonym ('a, 'o) json_externals =
  "(('a, 'o) py \<Rightarrow> py_error + pystr) \<times> (pystr \<Rightarrow> py_error + ('a, 'o) py)"

type_synonym ('a, 'o) externals =
  "(nat \<Rightarrow> pystr) \<times> ('a, 'o) np_externals \<times> ('a, 'o) pa_externals
   \<times> ('a, 'o) vaex_externals \<times> ('a, 'o) json_externals"

definition ext_uuid4 :: "('a, 'o) externals \<Rightarrow> nat \<Rightarrow> pystr" where
  "ext_uuid4 X = (case X of (u, _) \<Rightarrow> u)"

definition ext_np_dtype :: "('a, 'o) externals \<Rightarrow> ('a, 'o) py \<Rightarrow> py_error + np_dtype" where
  "ext_np_dtype X = (case X of (_, (f, _, _), _) \<Rightarrow> f)"

definition ext_np_array ::
  "('a, 'o) externals \<Rightarrow> ('a, 'o) py \<Rightarrow> np_dtype
     \<Rightarrow> py_error + np_dtype \<times> nat list \<times> ('a, 'o) nd_data" where
  "ext_np_array X = (case X of (_, (_, f, _), _) \<Rightarrow> f)"

definition ext_to_numpy_type :: "('a, 'o) externals \<Rightarrow> pystr \<Rightarrow> py_error + np_dtype" where
  "ext_to_numpy_type X = (case X of (_, (_, _, f), _) \<Rightarrow> f)"

definition ext_ipc_write :: "('a, 'o) externals \<Rightarrow> 'a arrow \<Rightarrow> py_error + bytes" where
  "ext_ipc_write X = (case X of (_, _, (f, _, _), _) \<Rightarrow> f)"

definition ext_ipc_read_all :: "('a, 'o) externals \<Rightarrow> bytes \<Rightarrow> py_error + 'a list list" where
  "ext_ipc_read_all X = (case X of (_, _, (_, f, _), _) \<Rightarrow> f)"

definition ext_pa_deserialize ::
  "('a, 'o) externals \<Rightarrow> bytes \<Rightarrow> py_error + ('a, 'o) py" where
  "ext_pa_deserialize X = (case X of (_, _, (_, _, f), _) \<Rightarrow> f)"

definition ext_from_dict ::
  "('a, 'o) externals \<Rightarrow> ('a, 'o) py \<Rightarrow> bool \<Rightarrow> py_error + ('a, 'o) py" where
  "ext_from_dict X = (case X of (_, _, _, (f, _, _), _) \<Rightarrow> f)"

definition ext_other_encode ::
  "('a, 'o) externals \<Rightarrow> pystr \<Rightarrow> ('a, 'o) py \<Rightarrow> ('a, 'o) enc_state
     \<Rightarrow> (py_error + ('a, 'o) py) \<times> ('a, 'o) enc_state" where
  "ext_other_encode X = (case X of (_, _, _, (_, f, _), _) \<Rightarrow> f)"

definition ext_other_decode ::
  "('a, 'o) externals \<Rightarrow> pystr \<Rightarrow> ('a, 'o) py \<Rightarrow> ('a, 'o) session
     \<Rightarrow> py_error + ('a, 'o) py" where
  "ext_other_decode X = (case X of (_, _, _, (_, _, f), _) \<Rightarrow> f)"



text \<open>
  An encoder changes the session and draws ids: its state is the session and the number
  of ids drawn so far. \<open>draw_blob\<close> is \<open>add_blob\<close> with the next id.
\<close>

definition draw_blob ::
  "('a, 'o) externals \<Rightarrow> bytes \<Rightarrow> ('a, 'o) enc_state \<Rightarrow> pystr \<times> ('a, 'o) enc_state" where
  "draw_blob X buffer st =
     (case st of (s, n) \<Rightarrow>
        (case add_blob (ext_uuid4 X n) buffer s of (r, s') \<Rightarrow> (r, (s', Suc n))))"

section \<open>Python operations on values\<close>

text \<open>
  \<^verbatim>\<open>v[key]\<close> for a string key: a dictionary looks the key up; sequences take integers only;
  a numpy array and a numpy scalar answer a string index with \<^verbatim>\<open>IndexError\<close> (an array
  with named fields, and the scalars \<^verbatim>\<open>np.str_\<close> and \<^verbatim>\<open>np.bytes_\<close>, which are strings as
  well, are not told apart); the other values are not subscriptable.
\<close>

definition py_getitem :: "('a, 'o) py \<Rightarrow> pystr \<Rightarrow> py_error + ('a, 'o) py" where
  "py_getitem v key =
     (case v of
        PDict kvs \<Rightarrow> (case map_of kvs key of None \<Rightarrow> Inl KeyError | Some x \<Rightarrow> Inr x)
      | PNdarray _ _ _ _ \<Rightarrow> Inl IndexError
      | PNpGeneric _ _ _ \<Rightarrow> Inl IndexError
      | _ \<Rightarrow> Inl TypeError)"

definition is_infix :: "pystr \<Rightarrow> pystr \<Rightarrow> bool" where
  "is_infix p s = list_ex (\<lambda>i. take (length p) (drop i s) = p) [0..<Suc (length s)]"

text \<open>
  \<^verbatim>\<open>key in v\<close> for a string key: a key of a dictionary, an element of a list or tuple, a
  substring of a string; \<^verbatim>\<open>TypeError\<close> for \<^verbatim>\<open>bytes\<close> and for values that are not
  containers. (On a numpy or Arrow array the test compares elements; it is given as
  \<open>False\<close>, and the subscript that follows in the source fails.)
\<close>

definition py_contains :: "pystr \<Rightarrow> ('a, 'o) py \<Rightarrow> py_error + bool" where
  "py_contains key v =
     (case v of
        PDict kvs \<Rightarrow> Inr (map_of kvs key \<noteq> None)
      | PList xs \<Rightarrow> Inr (PStr key \<in> set xs)
      | PTuple xs \<Rightarrow> Inr (PStr key \<in> set xs)
      | PStr s \<Rightarrow> Inr (is_infix key s)
      | PNdarray _ _ _ _ \<Rightarrow> Inr False
      | PArrow _ \<Rightarrow> Inr False
      | _ \<Rightarrow> Inl TypeError)"

text \<open>
  A key of a Python dictionary must be hashable: lists, dictionaries, numpy arrays and
  Arrow arrays are not, and a tuple is when its items are.
\<close>

fun hashable :: "('a, 'o) py \<Rightarrow> bool" where
  "hashable (PList _) = False"
| "hashable (PDict _) = False"
| "hashable (PNdarray _ _ _ _) = False"
| "hashable (PArrow _) = False"
| "hashable (PTuple xs) = list_all hashable xs"
| "hashable _ = True"

text \<open>The first exception of a list comprehension whose elements have no effect.\<close>

fun sequence_results :: "(py_error + 'b) list \<Rightarrow> py_error + 'b list" where
  "sequence_results [] = Inr []"
| "sequence_results (r # rs) =
     (case r of
        Inl e \<Rightarrow> Inl e
      | Inr x \<Rightarrow> (case sequence_results rs of Inl e \<Rightarrow> Inl e | Inr xs \<Rightarrow> Inr (x # xs)))"

text \<open>
  One statement after another: when the first raises, so does the whole; otherwise the
  second runs with the value of the first.
\<close>

definition then_do :: "py_error + 'b \<Rightarrow> ('b \<Rightarrow> py_error + 'c) \<Rightarrow> py_error + 'c" where
  "then_do r f = (case r of Inl e \<Rightarrow> Inl e | Inr x \<Rightarrow> f x)"

section \<open>numpy\<close>

definition np_bool :: np_dtype where
  "np_bool = \<lparr>dt_kind = CHR ''b'', dt_itemsize = 1, dt_str = lit ''bool''\<rparr>"

text \<open>
  \<^verbatim>\<open>np.frombuffer(data, dtype=dt)\<close>: no array of objects from a buffer, no dtype whose
  items have no size, and the buffer must hold whole items. The result has one
  dimension.
\<close>

definition np_frombuffer :: "bytes \<Rightarrow> np_dtype \<Rightarrow> py_error + nat list" where
  "np_frombuffer data dt =
     (if dt_kind dt = CHR ''O'' then Inl ValueError
      else if dt_itemsize dt = 0 then Inl ValueError
      else if length data mod dt_itemsize dt \<noteq> 0 then Inl ValueError
      else Inr [length data div dt_itemsize dt])"

text \<open>
  The shape argument of \<^verbatim>\<open>reshape\<close>: an integer or a sequence of integers, where a
  boolean is no integer; of the sequences here a \<^verbatim>\<open>bytes\<close> holds integers and a string
  holds none, so only the empty string is a shape. One dimension may be \<open>-1\<close> and is
  then inferred; otherwise the product of the dimensions must be the number of items.
  \<^verbatim>\<open>reshape(None)\<close> is a view of the array as it is. (The limit of numpy on the number of
  dimensions is left out: the shape of an array is within it.)
\<close>

definition shape_arg :: "('a, 'o) py \<Rightarrow> py_error + int list" where
  "shape_arg v =
     (let dim = (\<lambda>x. case x of PInt n \<Rightarrow> Inr n | _ \<Rightarrow> Inl TypeError)
      in case v of
           PInt n \<Rightarrow> Inr [n]
         | PList xs \<Rightarrow> sequence_results (map dim xs)
         | PTuple xs \<Rightarrow> sequence_results (map dim xs)
         | PBytes bs \<Rightarrow> Inr (map uint bs)
         | PStr cs \<Rightarrow> if cs = [] then Inr [] else Inl TypeError
         | _ \<Rightarrow> Inl TypeError)"

definition np_reshape :: "nat \<Rightarrow> int list \<Rightarrow> py_error + nat list" where
  "np_reshape n dims =
     (if list_ex (\<lambda>d. d < - 1) dims then Inl ValueError
      else if length (filter (\<lambda>d. d = - 1) dims) > 1 then Inl ValueError
      else if list_ex (\<lambda>d. d = - 1) dims then
        (let p = prod_list (map nat (filter (\<lambda>d. d \<noteq> - 1) dims))
         in if p = 0 \<or> n mod p \<noteq> 0 then Inl ValueError
            else Inr (map (\<lambda>d. if d = - 1 then n div p else nat d) dims))
      else if prod_list (map nat dims) = n then Inr (map nat dims)
      else Inl ValueError)"

definition frombuffer_reshape ::
  "bytes \<Rightarrow> np_dtype \<Rightarrow> ('a, 'o) py \<Rightarrow> py_error + nat list" where
  "frombuffer_reshape data dt shape =
     (case np_frombuffer data dt of
        Inl e \<Rightarrow> Inl e
      | Inr flat \<Rightarrow>
          if shape = PNone then Inr flat
          else (case shape_arg shape of
                  Inl e \<Rightarrow> Inl e
                | Inr dims \<Rightarrow> np_reshape (prod_list flat) dims))"

text \<open>
  \<^verbatim>\<open>np.ma.array(array, mask=mask_array)\<close> for a boolean mask array: a mask of another shape
  than the data is repeated when it has one item, reshaped when it has as many items as
  the data, and refused otherwise.
\<close>

definition np_ma_array :: "nat list \<Rightarrow> nat list \<Rightarrow> bytes \<Rightarrow> py_error + np_mask" where
  "np_ma_array shape mshape mdata =
     (if mshape = shape then Inr (MaskArray mshape mdata)
      else if prod_list mshape = 1 then Inr (MaskArray shape (replicate (prod_list shape) (hd mdata)))
      else if prod_list mshape = prod_list shape then Inr (MaskArray shape mdata)
      else Inl MaskError)"

text \<open>
  What the encoder reads of an array: \<^verbatim>\<open>values.tolist()\<close> (only asked of an array of
  objects), the bytes \<^verbatim>\<open>memoryview(values).tobytes()\<close> (only asked of other arrays) and
  the bytes of the mask (\<^verbatim>\<open>numpy.ma.nomask\<close> is the scalar \<^verbatim>\<open>False\<close>: one zero byte). An
  array of objects holds \<open>Objects\<close> and every other array a \<open>Buffer\<close>; the other clauses
  are never asked of an array that numpy can build, and neither is the mask of a plain
  array.
\<close>

definition nd_tolist :: "('a, 'o) nd_data \<Rightarrow> ('a, 'o) py" where
  "nd_tolist d = (case d of Objects v \<Rightarrow> v | Buffer _ \<Rightarrow> PNone)"

definition nd_tobytes :: "('a, 'o) nd_data \<Rightarrow> bytes" where
  "nd_tobytes d = (case d of Buffer b \<Rightarrow> b | Objects _ \<Rightarrow> [])"

definition mask_tobytes :: "np_mask \<Rightarrow> bytes" where
  "mask_tobytes m = (case m of MaskArray _ b \<Rightarrow> b | NoMask \<Rightarrow> [0] | NotMasked \<Rightarrow> [])"

section \<open>The codecs\<close>

subsection \<open>\<^verbatim>\<open>dtype\<close>\<close>

text \<open>
  \<^verbatim>\<open>
  def encode(encoding, dtype):
      dtype = dtype.internal
      return str(dtype)

  def decode(encoding, type_spec):
      if type_spec == 'string':
          return DataType(pa.string())
      if type_spec == 'large_string':
          return DataType(pa.large_string())
      if type_spec == 'timestamp[ms]':
          return DataType(pa.timestamp('ms'))
      else:
          return DataType(np.dtype(type_spec))
  \<close>
\<close>

definition dtype_encode :: "('a, 'o) py \<Rightarrow> py_error + ('a, 'o) py" where
  "dtype_encode dtype =
     (case dtype of
        PDataType (NumpyType d) \<Rightarrow> Inr (PStr (dt_str d))
      | PDataType (ArrowType name) \<Rightarrow> Inr (PStr name)
      | _ \<Rightarrow> Inl AttributeError)"

definition dtype_decode :: "('a, 'o) externals \<Rightarrow> ('a, 'o) py \<Rightarrow> py_error + data_type" where
  "dtype_decode X type_spec =
     (if type_spec = PStr (lit ''string'') then Inr (ArrowType (lit ''string''))
      else if type_spec = PStr (lit ''large_string'') then Inr (ArrowType (lit ''large_string''))
      else if type_spec = PStr (lit ''timestamp[ms]'') then Inr (ArrowType (lit ''timestamp[ms]''))
      else (case ext_np_dtype X type_spec of Inl e \<Rightarrow> Inl e | Inr d \<Rightarrow> Inr (NumpyType d)))"

definition datatype_numpy :: "('a, 'o) externals \<Rightarrow> data_type \<Rightarrow> py_error + np_dtype" where
  "datatype_numpy X dt =
     (case dt of NumpyType d \<Rightarrow> Inr d | ArrowType name \<Rightarrow> ext_to_numpy_type X name)"

subsection \<open>\<^verbatim>\<open>ndarray\<close>\<close>

text \<open>
  \<^verbatim>\<open>
  def encode(cls, encoding, array):
      mask = None
      dtype = array.dtype
      if np.ma.isMaskedArray(array):
          values = array.data
          mask = array.mask
      else:
          values = array
      if values.dtype.kind in 'mM':
          values = values.view(np.uint64)
      if values.dtype.kind == 'O':
          data = {
                  'values': values.tolist(),  # rely on json encoding
                  'shape': array.shape,
                  'dtype': encoding.encode('dtype', DataType(dtype))
          }
      else:
          data = {
                  'values': encoding.add_blob(values),
                  'shape': array.shape,
                  'dtype': encoding.encode('dtype', DataType(dtype))
          }
      if mask is not None:
          data['mask'] = encoding.add_blob(mask)
      return data
  \<close>
  The view as \<^verbatim>\<open>uint64\<close> changes the dtype of \<^verbatim>\<open>values\<close>, not the bytes: after it the kind
  is \<^verbatim>\<open>u\<close>, so a temporal array goes to the blob.
\<close>

definition ndarray_encode ::
  "('a, 'o) externals \<Rightarrow> ('a, 'o) py \<Rightarrow> ('a, 'o) enc_state
     \<Rightarrow> (py_error + ('a, 'o) py) \<times> ('a, 'o) enc_state" where
  "ndarray_encode X array st =
     (case array of
        PNdarray dtype shape values mask' \<Rightarrow>
          (let values_kind =
                 (if dt_kind dtype = CHR ''m'' \<or> dt_kind dtype = CHR ''M'' then CHR ''u''
                  else dt_kind dtype);
               shape_tuple = PTuple (map (\<lambda>n. PInt (int n)) shape);
               dtype_spec = PStr (dt_str dtype);
               (data, st1) =
                 (if values_kind = CHR ''O'' then
                    ([(lit ''values'', nd_tolist values), (lit ''shape'', shape_tuple),
                      (lit ''dtype'', dtype_spec)], st)
                  else
                    (case draw_blob X (nd_tobytes values) st of
                       (r, st') \<Rightarrow>
                         ([(lit ''values'', PStr r), (lit ''shape'', shape_tuple),
                           (lit ''dtype'', dtype_spec)], st')))
           in if mask' \<noteq> NotMasked then
                (case draw_blob X (mask_tobytes mask') st1 of
                   (r, st2) \<Rightarrow> (Inr (PDict (AList.update (lit ''mask'') (PStr r) data)), st2))
              else (Inr (PDict data), st1))
      | _ \<Rightarrow> (Inl AttributeError, st))"

text \<open>
  \<^verbatim>\<open>
  def decode(cls, encoding, result_encoded):
      if isinstance(result_encoded, (list, tuple)):
          return [cls.decode(encoding, k) for k in result_encoded]
      else:
          dtype = encoding.decode('dtype', result_encoded['dtype'])
          shape = result_encoded['shape']
          if dtype.kind == 'O':
              data = result_encoded['values']
              array = np.array(data, dtype=dtype.numpy)
          else:
              data = encoding.get_blob(result_encoded['values'])
              array = np.frombuffer(data, dtype=dtype.numpy).reshape(shape)
          if 'mask' in result_encoded:
              mask_data = encoding.get_blob(result_encoded['mask'])
              mask_array = np.frombuffer(mask_data, dtype=np.bool_).reshape(shape)
              array = np.ma.array(array, mask=mask_array)
          return array
  \<close>
  \<open>ndarray_decode_one\<close> is the \<^verbatim>\<open>else\<close> branch: \<open>ndarray_decode_values\<close> builds the
  array, \<open>ndarray_decode_mask\<close> the mask (\<open>NotMasked\<close> without the key). Where the source
  tests \<^verbatim>\<open>'mask' in result_encoded\<close> the subscripts before have succeeded, so the value is
  a dictionary.
\<close>

definition ndarray_decode_values ::
  "('a, 'o) externals \<Rightarrow> ('a, 'o) py \<Rightarrow> np_dtype \<Rightarrow> ('a, 'o) py \<Rightarrow> ('a, 'o) session
     \<Rightarrow> py_error + np_dtype \<times> nat list \<times> ('a, 'o) nd_data" where
  "ndarray_decode_values X result_encoded npdt shape s =
     (if dt_kind npdt = CHR ''O'' then
        then_do (py_getitem result_encoded (lit ''values'')) (\<lambda>data.
        ext_np_array X data npdt)
      else
        then_do (py_getitem result_encoded (lit ''values'')) (\<lambda>ref.
        then_do (get_blob ref s) (\<lambda>data.
        then_do (frombuffer_reshape data npdt shape) (\<lambda>sh.
        Inr (npdt, sh, Buffer data)))))"

definition ndarray_decode_mask ::
  "('a, 'o) py \<Rightarrow> ('a, 'o) py \<Rightarrow> nat list \<Rightarrow> ('a, 'o) session \<Rightarrow> py_error + np_mask" where
  "ndarray_decode_mask result_encoded shape ashape s =
     then_do (py_contains (lit ''mask'') result_encoded) (\<lambda>has_mask.
     if has_mask then
       then_do (py_getitem result_encoded (lit ''mask'')) (\<lambda>mref.
       then_do (get_blob mref s) (\<lambda>mask_data.
       then_do (frombuffer_reshape mask_data np_bool shape) (\<lambda>msh.
       np_ma_array ashape msh mask_data)))
     else Inr NotMasked)"

definition ndarray_decode_one ::
  "('a, 'o) externals \<Rightarrow> ('a, 'o) py \<Rightarrow> ('a, 'o) session \<Rightarrow> py_error + ('a, 'o) py" where
  "ndarray_decode_one X result_encoded s =
     then_do (py_getitem result_encoded (lit ''dtype'')) (\<lambda>type_spec.
     then_do (dtype_decode X type_spec) (\<lambda>dtype.
     then_do (py_getitem result_encoded (lit ''shape'')) (\<lambda>shape.
     then_do (datatype_numpy X dtype) (\<lambda>npdt.
     then_do (ndarray_decode_values X result_encoded npdt shape s) (\<lambda>array.
     then_do (ndarray_decode_mask result_encoded shape (fst (snd array)) s) (\<lambda>m.
     Inr (PNdarray (fst array) (fst (snd array)) (snd (snd array)) m)))))))"

fun ndarray_decode ::
  "('a, 'o) externals \<Rightarrow> ('a, 'o) py \<Rightarrow> ('a, 'o) session \<Rightarrow> py_error + ('a, 'o) py"
and ndarray_decode_list ::
  "('a, 'o) externals \<Rightarrow> ('a, 'o) py list \<Rightarrow> ('a, 'o) session \<Rightarrow> py_error + ('a, 'o) py list"
where
  "ndarray_decode X (PList ks) s =
     (case ndarray_decode_list X ks s of Inl e \<Rightarrow> Inl e | Inr rs \<Rightarrow> Inr (PList rs))"
| "ndarray_decode X (PTuple ks) s =
     (case ndarray_decode_list X ks s of Inl e \<Rightarrow> Inl e | Inr rs \<Rightarrow> Inr (PList rs))"
| "ndarray_decode X v s = ndarray_decode_one X v s"
| "ndarray_decode_list X [] s = Inr []"
| "ndarray_decode_list X (k # ks) s =
     (case ndarray_decode X k s of
        Inl e \<Rightarrow> Inl e
      | Inr r \<Rightarrow> (case ndarray_decode_list X ks s of Inl e \<Rightarrow> Inl e | Inr rs \<Rightarrow> Inr (r # rs)))"

subsection \<open>\<^verbatim>\<open>arrow-array\<close>\<close>

text \<open>
  \<^verbatim>\<open>
  def encode(cls, encoding, array):
      schema = pa.schema({'x': array.type})
      with pa.BufferOutputStream() as sink:
          with pa.ipc.new_stream(sink, schema) as writer:
              writer.write_table(pa.table({'x': array}))
      blob = sink.getvalue()
      return {'arrow-ipc-blob': encoding.add_blob(blob)}

  def decode(cls, encoding, result_encoded):
      if 'arrow-serialized-blob' in result_encoded:  # backward compatibility
          blob = encoding.get_blob(result_encoded['arrow-serialized-blob'])
          return pa.deserialize(blob)
      else:
          blob = encoding.get_blob(result_encoded['arrow-ipc-blob'])
          with pa.BufferReader(blob) as source:
              with pa.ipc.open_stream(source) as reader:
                  table = reader.read_all()
                  assert table.num_columns == 1
                  ar = table.column(0)
                  if len(ar.chunks) == 1:
                      ar = ar.chunks[0]
          return ar
  \<close>
\<close>

definition arrow_array_encode ::
  "('a, 'o) externals \<Rightarrow> ('a, 'o) py \<Rightarrow> ('a, 'o) enc_state
     \<Rightarrow> (py_error + ('a, 'o) py) \<times> ('a, 'o) enc_state" where
  "arrow_array_encode X array st =
     (case array of
        PArrow a \<Rightarrow>
          (case ext_ipc_write X a of
             Inl e \<Rightarrow> (Inl e, st)
           | Inr blob \<Rightarrow>
               (case draw_blob X blob st of
                  (r, st') \<Rightarrow> (Inr (PDict [(lit ''arrow-ipc-blob'', PStr r)]), st')))
      | _ \<Rightarrow> (Inl AttributeError, st))"

definition arrow_unwrap :: "'a list list \<Rightarrow> py_error + ('a, 'o) py" where
  "arrow_unwrap table =
     (case table of
        [ar] \<Rightarrow> (case ar of [chunk] \<Rightarrow> Inr (PArrow (Array chunk))
                 | _ \<Rightarrow> Inr (PArrow (ChunkedArray ar)))
      | _ \<Rightarrow> Inl AssertionError)"

definition arrow_array_decode ::
  "('a, 'o) externals \<Rightarrow> ('a, 'o) py \<Rightarrow> ('a, 'o) session \<Rightarrow> py_error + ('a, 'o) py" where
  "arrow_array_decode X result_encoded s =
     then_do (py_contains (lit ''arrow-serialized-blob'') result_encoded) (\<lambda>legacy.
     if legacy then
       then_do (py_getitem result_encoded (lit ''arrow-serialized-blob'')) (\<lambda>ref.
       then_do (get_blob ref s) (\<lambda>blob.
       ext_pa_deserialize X blob))
     else
       then_do (py_getitem result_encoded (lit ''arrow-ipc-blob'')) (\<lambda>ref.
       then_do (get_blob ref s) (\<lambda>blob.
       then_do (ext_ipc_read_all X blob) (\<lambda>table.
       arrow_unwrap table))))"

subsection \<open>\<^verbatim>\<open>array\<close>\<close>

text \<open>
  \<^verbatim>\<open>
  def encode(cls, encoding, result):
      if isinstance(result, np.ndarray):
          return {'type': 'ndarray', 'data': encoding.encode('ndarray', result)}
      elif isinstance(result, vaex.array_types.supported_arrow_array_types):
          return {'type': 'arrow-array', 'data': encoding.encode('arrow-array', result)}
      elif isinstance(result, numbers.Number):
          try:
              result = result.item()  # for numpy scalars
          except:  # noqa
              pass
          return {'type': 'json', 'data': result}
      else:
          raise ValueError('Cannot encode: %r' % result)
  \<close>
  A session's registry holds the module's codecs, so \<^verbatim>\<open>encoding.encode('ndarray', ...)\<close> is
  the \<^verbatim>\<open>ndarray\<close> encoder. Python's \<^verbatim>\<open>int\<close>, \<^verbatim>\<open>float\<close> and \<^verbatim>\<open>bool\<close> are numbers without an
  \<^verbatim>\<open>item\<close> method.
\<close>

definition tagged :: "string \<Rightarrow> ('a, 'o) py \<Rightarrow> ('a, 'o) py" where
  "tagged tag data = PDict [(lit ''type'', PStr (lit tag)), (lit ''data'', data)]"

definition tag_result ::
  "string \<Rightarrow> (py_error + ('a, 'o) py) \<times> 's \<Rightarrow> (py_error + ('a, 'o) py) \<times> 's" where
  "tag_result tag r =
     (case r of (Inl e, st) \<Rightarrow> (Inl e, st) | (Inr data, st) \<Rightarrow> (Inr (tagged tag data), st))"

definition array_encode ::
  "('a, 'o) externals \<Rightarrow> ('a, 'o) py \<Rightarrow> ('a, 'o) enc_state
     \<Rightarrow> (py_error + ('a, 'o) py) \<times> ('a, 'o) enc_state" where
  "array_encode X result st =
     (case result of
        PNdarray _ _ _ _ \<Rightarrow> tag_result ''ndarray'' (ndarray_encode X result st)
      | PArrow _ \<Rightarrow> tag_result ''arrow-array'' (arrow_array_encode X result st)
      | PBool _ \<Rightarrow> (Inr (tagged ''json'' result), st)
      | PInt _ \<Rightarrow> (Inr (tagged ''json'' result), st)
      | PFloat _ \<Rightarrow> (Inr (tagged ''json'' result), st)
      | PNpGeneric is_number item _ \<Rightarrow>
          if is_number then (Inr (tagged ''json'' item), st) else (Inl ValueError, st)
      | _ \<Rightarrow> (Inl ValueError, st))"

subsection \<open>\<^verbatim>\<open>variable\<close>\<close>

text \<open>
  \<^verbatim>\<open>
  def encode(encoding, obj):
      if isinstance(obj, np.ndarray):
          return {'type': 'ndarray', 'data': encoding.encode('ndarray', obj)}
      elif isinstance(obj, vaex.array_types.supported_arrow_array_types):
          return {'type': 'arrow-array', 'data': encoding.encode('arrow-array', obj)}
      elif isinstance(obj, vaex.hash.ordered_set):
          return {'type': 'ordered-set', 'data': encoding.encode('ordered-set', obj)}
      elif isinstance(obj, np.generic):
          return {'type': 'numpy-scalar', 'data': encoding.encode('numpy-scalar', obj)}
      elif isinstance(obj, np.integer):
          return obj.item()
      elif isinstance(obj, np.floating):
          return obj.item()
      elif isinstance(obj, np.ndarray):
          return obj.tolist()
      elif isinstance(obj, np.bytes_):
          return obj.decode('UTF-8')
      elif isinstance(obj, bytes):
          return str(obj, encoding='utf-8');
      else:
          return obj
  \<close>
  Every numpy scalar, \<^verbatim>\<open>np.bytes_\<close> included, is an \<^verbatim>\<open>np.generic\<close>, so the four branches
  after that test are never taken; \<open>PBytes\<close> is a \<^verbatim>\<open>bytes\<close> that is not a numpy scalar.
\<close>

definition variable_encode ::
  "('a, 'o) externals \<Rightarrow> ('a, 'o) py \<Rightarrow> ('a, 'o) enc_state
     \<Rightarrow> (py_error + ('a, 'o) py) \<times> ('a, 'o) enc_state" where
  "variable_encode X obj st =
     (case obj of
        PNdarray _ _ _ _ \<Rightarrow> tag_result ''ndarray'' (ndarray_encode X obj st)
      | PArrow _ \<Rightarrow> tag_result ''arrow-array'' (arrow_array_encode X obj st)
      | POrderedSet _ \<Rightarrow>
          tag_result ''ordered-set'' (ext_other_encode X (lit ''ordered-set'') obj st)
      | PNpGeneric _ _ _ \<Rightarrow>
          tag_result ''numpy-scalar'' (ext_other_encode X (lit ''numpy-scalar'') obj st)
      | PBytes b \<Rightarrow>
          (case utf8_decode b of
             None \<Rightarrow> (Inl UnicodeDecodeError, st)
           | Some text \<Rightarrow> (Inr (PStr text), st))
      | _ \<Rightarrow> (Inr obj, st))"

subsection \<open>\<^verbatim>\<open>function\<close>\<close>

text \<open>
  \<^verbatim>\<open>
  def decode(encoding, function_spec, trusted=False):
      if function_spec is None:
          return None
      function = vaex.serialize.from_dict(function_spec, trusted=trusted)
      return function
  \<close>
  The keyword argument is optional: \<open>None\<close> is a call that does not pass it.
\<close>

definition function_decode ::
  "('a, 'o) externals \<Rightarrow> ('a, 'o) py \<Rightarrow> bool option \<Rightarrow> py_error + ('a, 'o) py" where
  "function_decode X function_spec trusted_arg =
     (let trusted = (case trusted_arg of None \<Rightarrow> False | Some t \<Rightarrow> t)
      in if function_spec = PNone then Inr PNone
         else ext_from_dict X function_spec trusted)"


section \<open>\<^verbatim>\<open>Encoding.decode\<close>: the codecs by tag\<close>

text \<open>
  \<^verbatim>\<open>self.registry[typename]\<close>: the registry of a session is a copy of the module's, whose
  keys are the tags of \<open>module_tags\<close>. The result is the tag of the codec found;
  \<^verbatim>\<open>KeyError\<close> for a key that is not there, \<^verbatim>\<open>TypeError\<close> for one that cannot be hashed.
\<close>

definition registry_lookup :: "('a, 'o) py \<Rightarrow> py_error + pystr" where
  "registry_lookup typename =
     (case typename of
        PStr t \<Rightarrow> if t \<in> set module_tags then Inr t else Inl KeyError
      | _ \<Rightarrow> if hashable typename then Inl KeyError else Inl TypeError)"

text \<open>\<^verbatim>\<open>isinstance(v, (list, tuple))\<close> with the items, and \<^verbatim>\<open>isinstance(v, dict)\<close>.\<close>

definition as_sequence :: "('a, 'o) py \<Rightarrow> ('a, 'o) py list option" where
  "as_sequence v = (case v of PList ks \<Rightarrow> Some ks | PTuple ks \<Rightarrow> Some ks | _ \<Rightarrow> None)"

definition is_dict :: "('a, 'o) py \<Rightarrow> bool" where
  "is_dict v = (case v of PDict _ \<Rightarrow> True | _ \<Rightarrow> False)"

text \<open>
  What the recursion of \<open>decode\<close> descends on: the size of the value, and for the codecs
  that hand the same value to another codec a rank of the tag.
\<close>

definition tag_rank :: "('a, 'o) py \<Rightarrow> nat" where
  "tag_rank typename =
     (if typename = PStr (lit ''vaex-task-result'') then 2
      else if typename = PStr (lit ''vaex-evaluate-result'') then 1
      else if typename = PStr (lit ''vaex-rmi-result'') then 1
      else 0)"

text \<open>
  \<^verbatim>\<open>
  def decode(self, typename, value, **kwargs):
      decoded = self.registry[typename].decode(self, value, **kwargs)
      return decoded
  \<close>
  The only keyword argument a decoder of the module takes is \<^verbatim>\<open>trusted\<close> of the
  \<^verbatim>\<open>function\<close> codec, so \<open>kwargs\<close> is \<open>None\<close> for a call without keyword arguments and
  \<open>Some t\<close> for \<^verbatim>\<open>trusted=t\<close>; every other decoder answers a keyword argument with
  \<^verbatim>\<open>TypeError\<close>. The branches are the \<^verbatim>\<open>decode\<close> methods of the registered classes, in
  source order:
  \<^verbatim>\<open>
  json:                  return result_encoded
  vaex-task-result:      return encoding.decode('vaex-evaluate-result', result_encoded)
  vaex-rmi-result:       return encoding.decode('json', result_encoded)
  vaex-evaluate-result:  if isinstance(result_encoded, (list, tuple)):
                             return [cls.decode(encoding, k) for k in result_encoded]
                         else:
                             return encoding.decode('array', result_encoded)
  array:                 return encoding.decode(result_encoded['type'], result_encoded['data'])
  dataframe-state:       return state_spec
  selection:             if selection_spec is None:
                             return None
                         selection = vaex.selections.selection_from_dict(selection_spec)
                         return selection
  variable:              if isinstance(obj_spec, dict):
                             return encoding.decode(obj_spec['type'], obj_spec['data'])
                         else:
                             return obj_spec
  \<close>
  The decoders of \<^verbatim>\<open>arrow-array\<close>, \<^verbatim>\<open>ndarray\<close>, \<^verbatim>\<open>dtype\<close> and \<^verbatim>\<open>function\<close> are the definitions
  above; those of \<^verbatim>\<open>numpy-scalar\<close>, \<^verbatim>\<open>binner\<close>, \<^verbatim>\<open>grid\<close> and \<^verbatim>\<open>ordered-set\<close> build objects of
  other modules and are \<open>ext_other_decode\<close>.
\<close>

function decode ::
  "('a, 'o) externals \<Rightarrow> ('a, 'o) py \<Rightarrow> ('a, 'o) py \<Rightarrow> bool option \<Rightarrow> ('a, 'o) session
     \<Rightarrow> py_error + ('a, 'o) py" where
  "decode X typename v kwargs s =
     (case registry_lookup typename of
        Inl e \<Rightarrow> Inl e
      | Inr t \<Rightarrow>
          if t = lit ''function'' then function_decode X v kwargs
          else if kwargs \<noteq> None then Inl TypeError
          else if t = lit ''json'' then Inr v
          else if t = lit ''vaex-task-result'' then
            decode X (PStr (lit ''vaex-evaluate-result'')) v None s
          else if t = lit ''vaex-rmi-result'' then decode X (PStr (lit ''json'')) v None s
          else if t = lit ''vaex-evaluate-result'' then
            (case as_sequence v of
               Some ks \<Rightarrow>
                 (case sequence_results
                         (map (\<lambda>k. decode X (PStr (lit ''vaex-evaluate-result'')) k None s) ks) of
                    Inl e \<Rightarrow> Inl e
                  | Inr rs \<Rightarrow> Inr (PList rs))
             | None \<Rightarrow> decode X (PStr (lit ''array'')) v None s)
          else if t = lit ''array'' then
            (case py_getitem v (lit ''type'') of
               Inl e \<Rightarrow> Inl e
             | Inr ty \<Rightarrow>
                 (case py_getitem v (lit ''data'') of
                    Inl e \<Rightarrow> Inl e
                  | Inr d \<Rightarrow> decode X ty d None s))
          else if t = lit ''arrow-array'' then arrow_array_decode X v s
          else if t = lit ''ndarray'' then ndarray_decode X v s
          else if t = lit ''dtype'' then
            then_do (dtype_decode X v) (\<lambda>dt. Inr (PDataType dt))
          else if t = lit ''dataframe-state'' then Inr v
          else if t = lit ''selection'' then
            (if v = PNone then Inr PNone else ext_other_decode X t v s)
          else if t = lit ''variable'' then
            (if is_dict v then
               (case py_getitem v (lit ''type'') of
                  Inl e \<Rightarrow> Inl e
                | Inr ty \<Rightarrow>
                    (case py_getitem v (lit ''data'') of
                       Inl e \<Rightarrow> Inl e
                     | Inr d \<Rightarrow> decode X ty d None s))
             else Inr v)
          else ext_other_decode X t v s)"
  by pat_completeness auto
termination
proof -
  have tag: "typename = PStr t" if "registry_lookup typename = Inr t"
    for typename :: "('a, 'o) py" and t
    using that by (cases typename) (auto simp: registry_lookup_def split: if_splits)
  have item: "size k < size v" if "as_sequence v = Some ks" and "k \<in> set ks"
    for v k :: "('a, 'o) py" and ks
    using that
    by (cases v) (auto simp: as_sequence_def size_list_estimation' less_Suc_eq_le)
  have entry: "size d < size (PDict kvs)" if "map_of kvs k = Some d"
    for kvs k and d :: "('a, 'o) py"
    using that by (induction kvs) (auto split: if_splits)
  have sub: "size d < size v" if "py_getitem v k = Inr d"
    for v d :: "('a, 'o) py" and k
    using that entry [of _ k d]
    by (cases v) (auto simp: py_getitem_def split: option.splits)
  have rank: "tag_rank (PStr (lit ''vaex-evaluate-result'') :: ('a, 'o) py)
        < tag_rank (PStr (lit ''vaex-task-result'') :: ('a, 'o) py)"
    "tag_rank (PStr (lit ''json'') :: ('a, 'o) py)
        < tag_rank (PStr (lit ''vaex-rmi-result'') :: ('a, 'o) py)"
    "tag_rank (PStr (lit ''array'') :: ('a, 'o) py)
        < tag_rank (PStr (lit ''vaex-evaluate-result'') :: ('a, 'o) py)"
    by (simp_all add: tag_rank_def lit_def)
  show ?thesis
    apply (relation "measures [\<lambda>(X, typename, v, kwargs, s). size v,
                               \<lambda>(X, typename, v, kwargs, s). tag_rank typename]")
    apply simp
    subgoal by (auto dest!: tag simp: rank)
    subgoal by (auto dest!: tag simp: rank)
    subgoal by (auto dest!: tag simp: rank)
    subgoal by (simp add: item)
    subgoal by (simp add: sub)
    subgoal by (simp add: sub)
    done
qed

declare decode.simps [simp del]


section \<open>\<^verbatim>\<open>binary.serialize\<close> and \<^verbatim>\<open>binary.deserialize\<close>\<close>

text \<open>
  \<^verbatim>\<open>
  def serialize(data, encoding):
      blob_refs = list(encoding.blobs.keys())
      blobs = [encoding.blobs[k] for k in blob_refs]
      json_blob = json.dumps({'data': data, 'blob_refs': blob_refs, 'objects': encoding._object_specs})
      return _pack_blobs(json_blob.encode('utf8'), *blobs)
  \<close>
  A dictionary holds a key once, so the values looked up key by key are the second
  components of the store, in its order. Nothing of the session is changed.
\<close>

definition json_document :: "('a, 'o) py \<Rightarrow> ('a, 'o) session \<Rightarrow> ('a, 'o) py" where
  "json_document data s =
     PDict [(lit ''data'', data),
            (lit ''blob_refs'', PList (map fst (session_blobs s))),
            (lit ''objects'', session_object_specs s)]"






section \<open>Libraries for the examples\<close>

text \<open>
  The examples below run the definitions with these stand-ins for the libraries: the
  \<open>n\<close>-th id drawn is the one character with code \<open>48 + n\<close>; \<^verbatim>\<open>np.dtype\<close> knows \<^verbatim>\<open>int64\<close>;
  the Arrow stream writer writes three bytes and \<^verbatim>\<open>pa.deserialize\<close> wraps the blob it is
  given; \<^verbatim>\<open>from_dict\<close> answers with the flag it was called with; the rest fails. Of
  \<^verbatim>\<open>json\<close> they know two documents, both of a session with one blob: that of the root
  \<^verbatim>\<open>7\<close>, with the text \<^verbatim>\<open>{"data": 7, "blob_refs": ["0"], "objects": {}}\<close>, and that of the root
  \<^verbatim>\<open>(3,)\<close>, a tuple, with the text \<^verbatim>\<open>{"data": [3], "blob_refs": ["0"], "objects": {}}\<close>, which
  \<^verbatim>\<open>json.loads\<close> reads as the document of the list \<^verbatim>\<open>[3]\<close>. The array of the examples holds the
  three \<^verbatim>\<open>int64\<close> values 1, 2, 3 (in little-endian bytes).
\<close>

abbreviation example_int64 :: np_dtype where
  "example_int64 \<equiv> \<lparr>dt_kind = CHR ''i'', dt_itemsize = 8, dt_str = lit ''int64''\<rparr>"

abbreviation example_values :: bytes where
  "example_values \<equiv>
     [1, 0, 0, 0, 0, 0, 0, 0,  2, 0, 0, 0, 0, 0, 0, 0,  3, 0, 0, 0, 0, 0, 0, 0]"

abbreviation example_session :: "(unit, unit) session" where
  "example_session \<equiv>
     \<lparr>session_blobs = [(PStr (lit ''0''), [1, 2, 3])], session_object_specs = PDict []\<rparr>"

abbreviation example_json :: pystr where
  "example_json \<equiv>
     [123, 34, 100, 97, 116, 97, 34, 58, 32, 55, 44, 32, 34, 98, 108, 111,
      98, 95, 114, 101, 102, 115, 34, 58, 32, 91, 34, 48, 34, 93, 44, 32,
      34, 111, 98, 106, 101, 99, 116, 115, 34, 58, 32, 123, 125, 125]"

abbreviation example_json_tuple :: pystr where
  "example_json_tuple \<equiv>
     [123, 34, 100, 97, 116, 97, 34, 58, 32, 91, 51, 93, 44, 32, 34, 98,
      108, 111, 98, 95, 114, 101, 102, 115, 34, 58, 32, 91, 34, 48, 34, 93,
      44, 32, 34, 111, 98, 106, 101, 99, 116, 115, 34, 58, 32, 123, 125, 125]"

abbreviation example_externals :: "(unit, unit) externals" where
  "example_externals \<equiv>
     (\<lambda>n. [48 + n],
      (\<lambda>spec. if spec = PStr (lit ''int64'') then Inr example_int64 else Inl TypeError,
       \<lambda>data dt. Inl ValueError,
       \<lambda>name. Inl TypeError),
      (\<lambda>a. Inr [1, 2, 3], \<lambda>blob. Inl ArrowError, \<lambda>blob. Inr (PBytes blob)),
      (\<lambda>spec trusted. Inr (PBool trusted),
       \<lambda>tag v st. (Inl ValueError, st),
       \<lambda>tag v s. Inl ValueError),
      (\<lambda>doc. if doc = json_document (PInt 7) example_session then Inr example_json
             else if doc = json_document (PTuple [PInt 3]) example_session
             then Inr example_json_tuple
             else Inl TypeError,
       \<lambda>text. if text = example_json then Inr (json_document (PInt 7) example_session)
              else if text = example_json_tuple
              then Inr (json_document (PList [PInt 3]) example_session)
              else Inl JSONDecodeError))"


section \<open>Properties of the registry\<close>

lemma lit_inject: "lit a = lit b \<longleftrightarrow> a = b"
proof
  assume "lit a = lit b"
  then have "map (char_of :: nat \<Rightarrow> char) (lit a) = map char_of (lit b)"
    by simp
  then show "a = b"
    by (simp add: lit_def comp_def)
qed simp

lemma length_lit: "length (lit s) = length s"
  by (simp add: lit_def)

lemma startswith_append: "startswith (p @ s) p"
  by (simp add: startswith_def)

text \<open>
  C8. A tag that is in the registry cannot be registered again: the call fails on its
  assertion, at registration, and the registry it leaves is the one it found. In
  particular registering the same tag twice in a row fails the second time, whatever
  the registry was before. Nothing of a codec is run: the class is an opaque value.
\<close>

theorem register_duplicate_fails:
  "(registry name = Some c \<longrightarrow> register name cls registry = (Inl AssertionError, registry))
   \<and> register name c2 (snd (register name c1 registry))
       = (Inl AssertionError, snd (register name c1 registry))"
  by (simp add: register_def)

theorem register_duplicate_fails_witness:
  "[lit ''json'' \<mapsto> (0::nat)] (lit ''json'') = Some 0
   \<and> register (lit ''json'') (1::nat) [lit ''json'' \<mapsto> 0]
       = (Inl AssertionError, [lit ''json'' \<mapsto> 0])"
  using register_duplicate_fails [of "[lit ''json'' \<mapsto> (0::nat)]" "lit ''json''" 0 1 1 1]
  by simp

lemma module_tags_distinct: "distinct module_tags"
  by (simp add: module_tags_def distinct_map lit_def inj_on_def)

section \<open>Properties of the blob store\<close>

lemma get_blob_add_blob:
  "get_blob (PStr (fst (add_blob u b s))) (snd (add_blob u b s)) = Inr b"
  by (simp add: get_blob_def add_blob_def startswith_append length_lit update_conv')




section \<open>Properties of the UTF-8 functions\<close>

lemma utf8_decode_FF: "utf8_decode [0xFF] = None"
  by (subst utf8_decode.simps) (simp add: utf8_len_def)

lemma utf8_decode_Nil [simp]: "utf8_decode [] = Some []"
  by (simp add: utf8_decode.simps)

lemma utf8_ascii:
  "list_all (\<lambda>cp. cp < 128) s \<Longrightarrow>
     utf8_encode s = Some (map of_nat s) \<and> utf8_decode (map of_nat s) = Some s"
proof (induction s)
  case Nil
  show ?case by simp
next
  case (Cons cp s)
  then have lt: "cp < 128" and ih: "utf8_encode s = Some (map of_nat s)"
    "utf8_decode (map of_nat s) = Some s"
    by simp_all
  have u: "unat (of_nat cp :: byte) = cp"
    using lt by (simp add: unat_of_nat)
  have "utf8_decode (of_nat cp # map of_nat s) = Some (cp # s)"
    by (subst utf8_decode.simps) (simp add: u lt ih utf8_len_def utf8_cp_def)
  then show ?case
    using lt ih by (simp add: utf8_encode_cp_def)
qed

section \<open>Properties of the binary envelope\<close>

text \<open>A 64-bit field read back is the value that was written.\<close>

lemma le_int_le_bytes: "le_int (le_bytes n x) = x mod 256 ^ n"
proof (induction n arbitrary: x)
  case 0
  show ?case by simp
next
  case (Suc n)
  have "uint (word_of_int x :: byte) = x mod 256"
    by (simp add: uint_word_of_int)
  moreover have "x mod (256 * 256 ^ n) = 256 * (x div 256 mod 256 ^ n) + x mod 256"
    by (rule zmod_zmult2_eq) simp
  ultimately show ?case
    using Suc [of "x div 256"] by simp
qed

lemma length_le_bytes: "length (le_bytes n x) = n"
  by (induction n arbitrary: x) auto

lemma int64_wrap_id: "in_int64 x \<Longrightarrow> int64_wrap x = x"
  by (simp add: int64_wrap_def in_int64_def)

lemma int64_wrap_mod: "int64_wrap (x mod 2 ^ 64) = int64_wrap x"
  by (simp add: int64_wrap_def mod_simps)

lemma q_value_q_bytes: "in_int64 x \<Longrightarrow> q_value bo (q_bytes bo x) = x"
proof -
  assume r: "in_int64 x"
  have a: "le_int (le_bytes 8 x) = x mod 2 ^ 64"
    by (simp only: le_int_le_bytes) simp
  show ?thesis
    by (cases bo) (simp_all only: q_value_def q_bytes_def byteorder.case rev_rev_ident a int64_wrap_mod int64_wrap_id [OF r])
qed

lemma length_q_bytes: "length (q_bytes bo x) = 8"
  by (cases bo) (simp_all add: q_bytes_def length_le_bytes)

lemma total_length_simps [simp]:
  "total_length [] = 0"
  "total_length (b # bs) = int (length b) + total_length bs"
  by (simp_all add: total_length_def)

lemma total_length_nonneg: "0 \<le> total_length bs"
  by (simp add: total_length_def)

lemma chunks8_q_bytes:
  "chunks8 (length vs) (concat (map (q_bytes bo) vs) @ rest) = map (q_bytes bo) vs"
  by (induction vs) (simp_all add: length_q_bytes)

lemma length_concat_q_bytes: "length (concat (map (q_bytes bo) vs)) = 8 * length vs"
  by (induction vs) (simp_all add: length_q_bytes)

lemma struct_unpack_q_pack:
  assumes "list_all in_int64 vs"
  shows "struct_unpack_q bo (int (length vs)) (concat (map (q_bytes bo) vs)) = Inr vs"
proof -
  have "map (q_value bo) (map (q_bytes bo) vs) = vs"
    using assms by (induction vs) (simp_all add: q_value_q_bytes)
  moreover have "chunks8 (length vs) (concat (map (q_bytes bo) vs)) = map (q_bytes bo) vs"
    using chunks8_q_bytes [of vs bo "[]"] by simp
  ultimately show ?thesis
    by (simp add: struct_unpack_q_def length_concat_q_bytes)
qed

lemma offs_from_hd_tl: "offs_from a bs = a # tl (offs_from a bs)"
  by (cases bs) simp_all

lemma offs_from_nonempty [simp]: "offs_from a bs \<noteq> []"
  by (cases bs) simp_all

lemma length_offs_from [simp]: "length (offs_from a bs) = Suc (length bs)"
  by (induction bs arbitrary: a) simp_all

lemma last_offs_from: "last (offs_from a bs) = a + total_length bs"
proof (induction bs arbitrary: a)
  case Nil
  show ?case by simp
next
  case (Cons b bs)
  have "offs_from (a + int (length b)) bs \<noteq> []"
    by (subst offs_from_hd_tl) simp
  then show ?case
    by (simp add: Cons)
qed

lemma offs_from_bounds:
  "x \<in> set (offs_from a bs) \<Longrightarrow> a \<le> x \<and> x \<le> a + total_length bs"
proof (induction bs arbitrary: a)
  case Nil
  then show ?case by simp
next
  case (Cons b bs)
  show ?case
  proof (cases "x = a")
    case True
    then show ?thesis
      using total_length_nonneg [of bs] by simp
  next
    case False
    with Cons.prems have "x \<in> set (offs_from (a + int (length b)) bs)"
      by simp
    from Cons.IH [OF this] show ?thesis
      by simp
  qed
qed

lemma sorted_offs_from: "sorted (offs_from a bs)"
proof (induction bs arbitrary: a)
  case Nil
  show ?case by simp
next
  case (Cons b bs)
  have "\<forall>x \<in> set (offs_from (a + int (length b)) bs). a \<le> x"
    using offs_from_bounds [of _ "a + int (length b)" bs] by fastforce
  then show ?case
    by (simp add: Cons)
qed

lemma np_cumsum_plain:
  assumes "0 \<le> acc" "0 \<le> h" "acc + h + total_length bs < 2 ^ 63"
  shows "map (\<lambda>s. int64_wrap (s + h)) (np_cumsum acc (map (\<lambda>blob. int (length blob)) bs))
         = tl (offs_from (acc + h) bs)"
  using assms
proof (induction bs arbitrary: acc)
  case Nil
  show ?case by simp
next
  case (Cons b bs)
  let ?s = "acc + int (length b)"
  have b: "acc + h + (int (length b) + total_length bs) < 2 ^ 63"
    using Cons.prems(3) by simp
  have r1: "in_int64 ?s"
    using b Cons.prems(1,2) total_length_nonneg [of bs] by (simp add: in_int64_def)
  have r2: "in_int64 (?s + h)"
    using b Cons.prems(1,2) total_length_nonneg [of bs] by (simp add: in_int64_def)
  have ih: "map (\<lambda>s. int64_wrap (s + h)) (np_cumsum ?s (map (\<lambda>blob. int (length blob)) bs))
         = tl (offs_from (?s + h) bs)"
    using Cons.prems by (intro Cons.IH) simp_all
  have e: "acc + h + int (length b) = ?s + h"
    by simp
  have "map (\<lambda>s. int64_wrap (s + h)) (np_cumsum acc (map (\<lambda>blob. int (length blob)) (b # bs)))
        = (?s + h) # tl (offs_from (?s + h) bs)"
    using ih by (simp add: int64_wrap_id [OF r1] int64_wrap_id [OF r2] Let_def)
  also have "\<dots> = offs_from (?s + h) bs"
    by (rule offs_from_hd_tl [symmetric])
  also have "\<dots> = tl (offs_from (acc + h) (b # bs))"
    by (simp only: offs_from.simps list.sel e)
  finally show ?case .
qed

lemma envelope_offsets_plain:
  assumes h: "h = 8 * (2 + int (length blobs))"
      and b: "h + total_length blobs < 2 ^ 63"
  shows "envelope_offsets blobs = offs_from h blobs"
proof -
  have h0: "0 \<le> h"
    by (simp add: h)
  have r: "in_int64 h"
    using b h0 total_length_nonneg [of blobs] by (simp add: in_int64_def)
  have "map (\<lambda>s. int64_wrap (s + h)) (np_cumsum 0 (map (\<lambda>blob. int (length blob)) blobs))
        = tl (offs_from (0 + h) blobs)"
    using b h0 by (intro np_cumsum_plain) simp_all
  moreover have "int64_wrap 0 = 0"
    by (simp add: int64_wrap_id in_int64_def)
  moreover have "offs_from h blobs = h # tl (offs_from h blobs)"
    by (rule offs_from_hd_tl)
  ultimately have "map (\<lambda>s. int64_wrap (s + h))
        (np_cumsum 0 (0 # map (\<lambda>blob. int (length blob)) blobs)) = offs_from h blobs"
    using int64_wrap_id [OF r] by (simp add: Let_def)
  then show ?thesis
    unfolding envelope_offsets_def Let_def h .
qed

lemma py_slice_middle:
  "py_slice (p @ b @ q) (int (length p)) (int (length p) + int (length b)) = b"
  by (simp add: py_slice_def slice_index_def Let_def)

lemma slices_offs_from:
  "map (\<lambda>(i1, i2). py_slice (p @ concat bs) i1 i2)
       (zip (butlast (offs_from (int (length p)) bs)) (tl (offs_from (int (length p)) bs)))
   = bs"
proof (induction bs arbitrary: p)
  case Nil
  show ?case by simp
next
  case (Cons b bs)
  let ?a = "int (length p)"
  let ?rest = "offs_from (?a + int (length b)) bs"
  have ne: "?rest \<noteq> []"
    by (subst offs_from_hd_tl) simp
  have hd: "?rest = (?a + int (length b)) # tl ?rest"
    by (rule offs_from_hd_tl)
  have ih: "map (\<lambda>(i1, i2). py_slice ((p @ b) @ concat bs) i1 i2)
       (zip (butlast ?rest) (tl ?rest)) = bs"
    using Cons.IH [of "p @ b"] by simp
  have first: "py_slice (p @ b @ concat bs) ?a (?a + int (length b)) = b"
    by (rule py_slice_middle)
  have "zip (butlast (?a # ?rest)) ?rest = (?a, ?a + int (length b)) # zip (butlast ?rest) (tl ?rest)"
    using ne by (subst (2) hd) simp
  then show ?case
    using ih first by simp
qed

lemma chunks8_concat:
  "list_all (\<lambda>c. length c = 8) cs \<Longrightarrow> chunks8 (length cs) (concat cs @ rest) = cs"
  by (induction cs) simp_all

lemma length_concat8:
  "list_all (\<lambda>c. length c = 8) cs \<Longrightarrow> length (concat cs) = 8 * length cs"
  by (induction cs) simp_all

lemma struct_unpack_q_chunks:
  assumes "list_all (\<lambda>c. length c = 8) cs"
  shows "struct_unpack_q bo (int (length cs)) (concat cs) = Inr (map (q_value bo) cs)"
  using chunks8_concat [OF assms, of "[]"] length_concat8 [OF assms]
  by (simp add: struct_unpack_q_def)

lemma in_int64_offsets:
  assumes h: "h = 8 * (2 + int (length blobs))"
      and b: "h + total_length blobs < 2 ^ 63"
  shows "list_all in_int64 (int (length blobs) # offs_from h blobs)"
proof -
  have h0: "int (length blobs) \<le> h" "0 \<le> h"
    by (simp_all add: h)
  have "in_int64 x" if "x \<in> set (offs_from h blobs)" for x
    using offs_from_bounds [OF that] b h0 by (simp add: in_int64_def)
  moreover have "in_int64 (int (length blobs))"
    using b h0 total_length_nonneg [of blobs] by (simp add: in_int64_def)
  ultimately show ?thesis
    by (simp add: list_all_iff)
qed

lemma length_envelope_header:
  assumes h: "h = 8 * (2 + int (length blobs))"
      and b: "h + total_length blobs < 2 ^ 63"
  shows "int (length (envelope_header bo blobs)) = h"
  by (simp add: envelope_header_def length_concat_q_bytes length_q_bytes
      envelope_offsets_plain [OF h b] h)

lemma pack_blobs_ok:
  assumes h: "h = 8 * (2 + int (length blobs))"
      and b: "h + total_length blobs < 2 ^ 63"
  shows "pack_blobs bo blobs = Inr (envelope_header bo blobs @ concat blobs)"
proof -
  have offs: "envelope_offsets blobs = offs_from h blobs"
    by (rule envelope_offsets_plain [OF h b])
  have rng: "list_all in_int64 (int (length blobs) # offs_from h blobs)"
    by (rule in_int64_offsets [OF h b])
  have hdr: "struct_pack_q bo (int (length blobs) # offs_from h blobs)
        = Inr (envelope_header bo blobs)"
    using rng by (simp add: struct_pack_q_def envelope_header_def offs)
  have lst: "last (offs_from h blobs) = int (length (envelope_header bo blobs @ concat blobs))"
    using length_envelope_header [OF h b, of bo]
    by (simp add: last_offs_from total_length_def)
  show ?thesis
    by (simp only: pack_blobs_def Let_def offs hdr sum.case lst) simp
qed

lemma unpack_blobs_header:
  assumes cs: "list_all (\<lambda>c. length c = 8) cs" and ne: "cs \<noteq> []"
      and c0: "length c0 = 8" and cnt: "q_value bo c0 + 1 = int (length cs)"
      and sz: "8 * int (length cs) < 2 ^ 63"
  shows "unpack_blobs bo (c0 @ concat cs @ payload) =
     (if last (map (q_value bo) cs) \<noteq> int (length (c0 @ concat cs @ payload))
      then Inl AssertionError
      else Inr (map (\<lambda>(i1, i2). py_slice (c0 @ concat cs @ payload) i1 i2)
                 (zip (butlast (map (q_value bo) cs)) (tl (map (q_value bo) cs)))))"
proof -
  have r1: "bytesio_read 8 (c0 @ concat cs @ payload) = Inr (c0, concat cs @ payload)"
    by (simp add: bytesio_read_def in_int64_def c0)
  have u1: "struct_unpack_q bo 1 c0 = Inr [q_value bo c0]"
    using struct_unpack_q_chunks [of "[c0]" bo] c0 by simp
  have len: "length (concat cs) = 8 * length cs"
    by (rule length_concat8 [OF cs])
  have r2: "bytesio_read (8 * int (length cs)) (concat cs @ payload)
      = Inr (concat cs, payload)"
    using sz by (simp add: bytesio_read_def in_int64_def len)
  have u2: "struct_unpack_q bo (int (length cs)) (concat cs) = Inr (map (q_value bo) cs)"
    by (rule struct_unpack_q_chunks [OF cs])
  have ne': "map (q_value bo) cs \<noteq> []"
    using ne by simp
  show ?thesis
    by (simp only: unpack_blobs_def Let_def r1 prod.case u1 sum.case list.sel cnt r2 u2
        ne' if_False)
qed

lemma unpack_pack_blobs:
  assumes h: "h = 8 * (2 + int (length blobs))"
      and b: "h + total_length blobs < 2 ^ 63"
  shows "unpack_blobs bo (envelope_header bo blobs @ concat blobs) = Inr blobs"
proof -
  let ?offs = "offs_from h blobs"
  let ?cs = "map (q_bytes bo) ?offs"
  let ?c0 = "q_bytes bo (int (length blobs))"
  have offs: "envelope_offsets blobs = ?offs"
    by (rule envelope_offsets_plain [OF h b])
  have rng: "list_all in_int64 (int (length blobs) # ?offs)"
    by (rule in_int64_offsets [OF h b])
  have env: "envelope_header bo blobs @ concat blobs = ?c0 @ concat ?cs @ concat blobs"
    by (simp add: envelope_header_def offs)
  have cs: "list_all (\<lambda>c. length c = 8) ?cs"
    by (simp add: list_all_iff length_q_bytes)
  have ne: "?cs \<noteq> []"
    by (subst offs_from_hd_tl) simp
  have vals: "map (q_value bo) ?cs = ?offs"
    using rng by (simp add: list_all_iff map_idI q_value_q_bytes)
  have cnt: "q_value bo ?c0 + 1 = int (length ?cs)"
    using rng by (simp add: q_value_q_bytes)
  have hl: "int (length (?c0 @ concat ?cs)) = h"
    using length_envelope_header [OF h b, of bo] by (simp add: envelope_header_def offs)
  have lst: "last ?offs = int (length (?c0 @ concat ?cs @ concat blobs))"
    using hl by (simp add: last_offs_from total_length_def)
  have "map (\<lambda>(i1, i2). py_slice ((?c0 @ concat ?cs) @ concat blobs) i1 i2)
       (zip (butlast (offs_from (int (length (?c0 @ concat ?cs))) blobs))
            (tl (offs_from (int (length (?c0 @ concat ?cs))) blobs))) = blobs"
    by (rule slices_offs_from)
  then have sl: "map (\<lambda>(i1, i2). py_slice (?c0 @ concat ?cs @ concat blobs) i1 i2)
       (zip (butlast ?offs) (tl ?offs)) = blobs"
    unfolding hl by (simp only: append_assoc)
  have sz: "8 * int (length ?cs) < 2 ^ 63"
    using b total_length_nonneg [of blobs] by (simp add: h)
  show ?thesis
    by (simp only: env unpack_blobs_header [OF cs ne length_q_bytes cnt sz] vals lst sl) simp
qed

lemma nth_slices:
  assumes "map (\<lambda>(i1, i2). py_slice env i1 i2) (zip (butlast offs) (tl offs)) = blobs"
      and "length offs = Suc (length blobs)" and "i < length blobs"
  shows "py_slice env (offs ! i) (offs ! Suc i) = blobs ! i"
proof -
  have "blobs ! i = (map (\<lambda>(i1, i2). py_slice env i1 i2) (zip (butlast offs) (tl offs))) ! i"
    by (simp only: assms(1))
  also have "\<dots> = py_slice env (butlast offs ! i) (tl offs ! i)"
    using assms(2,3) by simp
  also have "\<dots> = py_slice env (offs ! i) (offs ! Suc i)"
    using assms(2,3) by (simp add: nth_butlast nth_tl)
  finally show ?thesis by simp
qed

text \<open>
  C3. For \<open>M\<close> blobs whose envelope fits the 64-bit offsets, \<open>_pack_blobs\<close> returns an
  envelope that is the header followed by the blobs. The header is \<open>M + 2\<close> fields of
  eight bytes, each a signed integer in the native order: the count \<open>M\<close>, then \<open>M + 1\<close>
  offsets. The first offset is the header's length \<open>8 * (M + 2)\<close>, the last is the length
  of the envelope, blob \<open>i\<close> is the slice from offset \<open>i\<close> to offset \<open>i + 1\<close>, and the offsets
  never decrease.
\<close>

theorem pack_blobs_layout:
  assumes "8 * (2 + int (length blobs)) + int (length (concat blobs)) < 2 ^ 63"
  shows "\<exists>env. pack_blobs bo blobs = Inr env
      \<and> env = concat (map (q_bytes bo) (int (length blobs) # envelope_offsets blobs))
              @ concat blobs
      \<and> struct_unpack_q bo (int (length blobs) + 2) (take (8 * (length blobs + 2)) env)
          = Inr (int (length blobs) # envelope_offsets blobs)
      \<and> length (envelope_offsets blobs) = length blobs + 1
      \<and> envelope_offsets blobs ! 0 = 8 * (int (length blobs) + 2)
      \<and> envelope_offsets blobs ! length blobs = int (length env)
      \<and> (\<forall>i < length blobs.
            py_slice env (envelope_offsets blobs ! i) (envelope_offsets blobs ! Suc i)
            = blobs ! i)
      \<and> sorted (envelope_offsets blobs)"
proof -
  define h where "h = 8 * (2 + int (length blobs))"
  have b: "h + total_length blobs < 2 ^ 63"
    using assms by (simp add: h_def total_length_def)
  define env where "env = envelope_header bo blobs @ concat blobs"
  have offs: "envelope_offsets blobs = offs_from h blobs"
    by (rule envelope_offsets_plain [OF h_def b])
  have rng: "list_all in_int64 (int (length blobs) # offs_from h blobs)"
    by (rule in_int64_offsets [OF h_def b])
  have hl: "int (length (envelope_header bo blobs)) = h"
    by (rule length_envelope_header [OF h_def b])
  have hl': "length (envelope_header bo blobs) = 8 * (length blobs + 2)"
    using hl by (simp add: h_def)
  have p: "pack_blobs bo blobs = Inr env"
    unfolding env_def by (rule pack_blobs_ok [OF h_def b])
  have e: "env = concat (map (q_bytes bo) (int (length blobs) # envelope_offsets blobs))
              @ concat blobs"
    by (simp add: env_def envelope_header_def)
  have "struct_unpack_q bo (int (length (int (length blobs) # offs_from h blobs)))
          (concat (map (q_bytes bo) (int (length blobs) # offs_from h blobs)))
        = Inr (int (length blobs) # offs_from h blobs)"
    by (rule struct_unpack_q_pack [OF rng])
  then have u: "struct_unpack_q bo (int (length blobs) + 2) (take (8 * (length blobs + 2)) env)
          = Inr (int (length blobs) # envelope_offsets blobs)"
    using hl' by (simp add: env_def offs envelope_header_def add.commute)
  have l: "length (envelope_offsets blobs) = length blobs + 1"
    by (simp add: offs)
  have o0: "envelope_offsets blobs ! 0 = 8 * (int (length blobs) + 2)"
    by (subst offs, subst offs_from_hd_tl) (simp add: h_def)
  have "last (offs_from h blobs) = offs_from h blobs ! length blobs"
    by (simp add: last_conv_nth)
  then have oM: "envelope_offsets blobs ! length blobs = int (length env)"
    using hl by (simp add: offs last_offs_from env_def total_length_def)
  have "unpack_blobs bo env = Inr blobs"
    unfolding env_def by (rule unpack_pack_blobs [OF h_def b])
  have sl0: "map (\<lambda>(i1, i2). py_slice (envelope_header bo blobs @ concat blobs) i1 i2)
       (zip (butlast (offs_from (int (length (envelope_header bo blobs))) blobs))
            (tl (offs_from (int (length (envelope_header bo blobs))) blobs))) = blobs"
    by (rule slices_offs_from)
  have sl: "map (\<lambda>(i1, i2). py_slice env i1 i2)
       (zip (butlast (envelope_offsets blobs)) (tl (envelope_offsets blobs))) = blobs"
    using sl0 unfolding hl env_def offs .
  have s: "\<forall>i < length blobs.
            py_slice env (envelope_offsets blobs ! i) (envelope_offsets blobs ! Suc i)
            = blobs ! i"
    using nth_slices [OF sl] l by simp
  have srt: "sorted (envelope_offsets blobs)"
    by (simp add: offs sorted_offs_from)
  from p e u l o0 oM s srt show ?thesis
    by blast
qed

theorem pack_blobs_layout_witness:
  "8 * (2 + int (length [[1, 2], [], [3 :: byte]])) + int (length (concat [[1, 2], [], [3 :: byte]]))
     < 2 ^ 63
   \<and> (\<exists>env. pack_blobs LittleEndian [[1, 2], [], [3]] = Inr env
        \<and> envelope_offsets [[1, 2], [], [3]] ! 3 = int (length env)
        \<and> sorted (envelope_offsets [[1, 2], [], [3]]))"
proof -
  have h: "8 * (2 + int (length [[1, 2], [], [3 :: byte]]))
      + int (length (concat [[1, 2], [], [3 :: byte]])) < 2 ^ 63"
    by simp
  from pack_blobs_layout [OF h, of LittleEndian] obtain env where
    "pack_blobs LittleEndian [[1, 2], [], [3]] = Inr env"
    "envelope_offsets [[1, 2], [], [3]] ! length [[1, 2], [], [3 :: byte]] = int (length env)"
    "sorted (envelope_offsets [[1, 2], [], [3]])"
    by blast
  then show ?thesis
    using h by (auto simp: numeral_3_eq_3)
qed

text \<open>
  C5, as stated, fails: the blob of length 0 makes two offsets equal, so the four
  offsets 40, 45, 45, 52 are not strictly increasing.
\<close>

theorem pack_5_0_7_offsets_not_strict:
  "pack_blobs LittleEndian [[1, 2, 3, 4, 5], [], [1, 2, 3, 4, 5, 6, 7]]
     = Inr ([3, 0, 0, 0, 0, 0, 0, 0,  40, 0, 0, 0, 0, 0, 0, 0,  45, 0, 0, 0, 0, 0, 0, 0,
             45, 0, 0, 0, 0, 0, 0, 0,  52, 0, 0, 0, 0, 0, 0, 0]
            @ [1, 2, 3, 4, 5] @ [] @ [1, 2, 3, 4, 5, 6, 7])
   \<and> envelope_offsets [[1, 2, 3, 4, 5], [], [1, 2, 3, 4, 5, 6, 7]] = [40, 45, 45, 52]
   \<and> \<not> sorted_wrt (<) (envelope_offsets [[1, 2, 3, 4, 5], [], [1, 2, 3, 4, 5, 6, 7]])"
  by code_simp

text \<open>
  C5, amended. Packing three blobs of lengths 5, 0 and 7 gives a header with count 3 and
  the four offsets 40, 45, 45, 52, which never decrease (the second and third are equal),
  and unpacking that envelope returns the three blobs in their order.
\<close>

theorem pack_5_0_7:
  assumes "length b1 = 5" and "length b2 = 0" and "length b3 = 7"
  shows "\<exists>env. pack_blobs bo [b1, b2, b3] = Inr env
      \<and> struct_unpack_q bo 5 (take 40 env) = Inr [3, 40, 45, 45, 52]
      \<and> envelope_offsets [b1, b2, b3] = [40, 45, 45, 52]
      \<and> sorted (envelope_offsets [b1, b2, b3])
      \<and> unpack_blobs bo env = Inr [b1, b2, b3]"
proof -
  define h :: int where "h = 8 * (2 + int (length [b1, b2, b3]))"
  have b: "h + total_length [b1, b2, b3] < 2 ^ 63"
    using assms by (simp add: h_def)
  have "envelope_offsets [b1, b2, b3] = offs_from h [b1, b2, b3]"
    by (rule envelope_offsets_plain [OF h_def b])
  also have "\<dots> = [40, 45, 45, 52]"
    using assms by (simp add: h_def)
  finally have offs: "envelope_offsets [b1, b2, b3] = [40, 45, 45, 52]" .
  have p: "pack_blobs bo [b1, b2, b3] = Inr (envelope_header bo [b1, b2, b3] @ concat [b1, b2, b3])"
    by (rule pack_blobs_ok [OF h_def b])
  have u: "unpack_blobs bo (envelope_header bo [b1, b2, b3] @ concat [b1, b2, b3])
      = Inr [b1, b2, b3]"
    by (rule unpack_pack_blobs [OF h_def b])
  have hl: "length (envelope_header bo [b1, b2, b3]) = 40"
    using length_envelope_header [OF h_def b, of bo] by (simp add: h_def)
  have "list_all in_int64 [3, 40, 45, 45, 52]"
    by (simp add: in_int64_def)
  from struct_unpack_q_pack [OF this, of bo]
  have "struct_unpack_q bo 5 (envelope_header bo [b1, b2, b3]) = Inr [3, 40, 45, 45, 52]"
    by (simp add: envelope_header_def offs)
  then have s: "struct_unpack_q bo 5
      (take 40 (envelope_header bo [b1, b2, b3] @ concat [b1, b2, b3])) = Inr [3, 40, 45, 45, 52]"
    using hl by simp
  have "sorted (envelope_offsets [b1, b2, b3])"
    by (simp add: offs)
  with p s offs u show ?thesis
    by blast
qed

theorem pack_5_0_7_witness:
  "length [1, 2, 3, 4, 5 :: byte] = 5 \<and> length ([] :: bytes) = 0
   \<and> length [1, 2, 3, 4, 5, 6, 7 :: byte] = 7
   \<and> (\<exists>env. pack_blobs BigEndian [[1, 2, 3, 4, 5], [], [1, 2, 3, 4, 5, 6, 7]] = Inr env
        \<and> unpack_blobs BigEndian env = Inr [[1, 2, 3, 4, 5], [], [1, 2, 3, 4, 5, 6, 7]])"
proof -
  have l: "length [1, 2, 3, 4, 5 :: byte] = 5" "length ([] :: bytes) = 0"
    "length [1, 2, 3, 4, 5, 6, 7 :: byte] = 7"
    by simp_all
  from pack_5_0_7 [OF l, of BigEndian] show ?thesis
    using l by blast
qed


text \<open>
  C4, as stated, fails: \<open>_unpack_blobs\<close> compares only the last offset with the length of
  the buffer. In the envelope of the blobs \<open>[1, 2]\<close> and \<open>[3, 4]\<close> the offsets are 32, 34, 36;
  with the middle one overwritten by 33 unpacking returns \<open>[1]\<close> and \<open>[2, 3, 4]\<close>, no error.
\<close>

theorem corrupt_inner_offset_undetected:
  "pack_blobs LittleEndian [[1, 2], [3, 4]]
     = Inr [2, 0, 0, 0, 0, 0, 0, 0,  32, 0, 0, 0, 0, 0, 0, 0,  34, 0, 0, 0, 0, 0, 0, 0,
            36, 0, 0, 0, 0, 0, 0, 0,  1, 2, 3, 4]
   \<and> set_header_offset 1 (q_bytes LittleEndian 33)
        [2, 0, 0, 0, 0, 0, 0, 0,  32, 0, 0, 0, 0, 0, 0, 0,  34, 0, 0, 0, 0, 0, 0, 0,
         36, 0, 0, 0, 0, 0, 0, 0,  1, 2, 3, 4]
     = [2, 0, 0, 0, 0, 0, 0, 0,  32, 0, 0, 0, 0, 0, 0, 0,  33, 0, 0, 0, 0, 0, 0, 0,
        36, 0, 0, 0, 0, 0, 0, 0,  1, 2, 3, 4]
   \<and> unpack_blobs LittleEndian
        [2, 0, 0, 0, 0, 0, 0, 0,  32, 0, 0, 0, 0, 0, 0, 0,  33, 0, 0, 0, 0, 0, 0, 0,
         36, 0, 0, 0, 0, 0, 0, 0,  1, 2, 3, 4]
     = Inr [[1], [2, 3, 4]]"
  by code_simp

lemma take_exact: "length p = n \<Longrightarrow> take n (p @ q) = p"
  by simp

lemma drop_exact: "length p = n \<Longrightarrow> drop n (p @ q) = q"
  by simp

lemma concat_map_snoc:
  "xs \<noteq> [] \<Longrightarrow> concat (map f xs) = concat (map f (butlast xs)) @ f (last xs)"
  by (induction xs) simp_all

text \<open>
  C4, amended. In an envelope that \<open>_pack_blobs\<close> produced, overwriting the last offset
  (the one that must equal the length of the buffer) by eight bytes whose value is not
  that length makes \<open>_unpack_blobs\<close> fail on its assertion.
\<close>

theorem corrupt_final_offset_detected:
  assumes bound: "8 * (2 + int (length blobs)) + int (length (concat blobs)) < 2 ^ 63"
      and pack: "pack_blobs bo blobs = Inr env"
      and w: "length w = 8"
      and bad: "q_value bo w \<noteq> int (length env)"
  shows "unpack_blobs bo (set_header_offset (length blobs) w env) = Inl AssertionError"
proof -
  define h where "h = 8 * (2 + int (length blobs))"
  have b: "h + total_length blobs < 2 ^ 63"
    using bound by (simp add: h_def total_length_def)
  let ?offs = "offs_from h blobs"
  let ?c0 = "q_bytes bo (int (length blobs))"
  let ?cs = "map (q_bytes bo) (butlast ?offs)"
  have offs: "envelope_offsets blobs = ?offs"
    by (rule envelope_offsets_plain [OF h_def b])
  have rng: "list_all in_int64 (int (length blobs) # ?offs)"
    by (rule in_int64_offsets [OF h_def b])
  have env: "env = envelope_header bo blobs @ concat blobs"
    using pack pack_blobs_ok [OF h_def b, of bo] by simp
  have "concat (map (q_bytes bo) ?offs) = concat ?cs @ q_bytes bo (last ?offs)"
    by (rule concat_map_snoc) simp
  then have env': "env = (?c0 @ concat ?cs) @ q_bytes bo (last ?offs) @ concat blobs"
    by (simp add: env envelope_header_def offs)
  have l1: "length (?c0 @ concat ?cs) = 8 * (length blobs + 1)"
    by (simp add: length_q_bytes length_concat_q_bytes)
  have tk: "take (8 * (length blobs + 1)) env = ?c0 @ concat ?cs"
    unfolding env' by (rule take_exact [OF l1])
  have l2: "length ((?c0 @ concat ?cs) @ q_bytes bo (last ?offs)) = 8 * (length blobs + 2)"
    by (simp add: length_q_bytes length_concat_q_bytes)
  have "drop (8 * (length blobs + 2))
          (((?c0 @ concat ?cs) @ q_bytes bo (last ?offs)) @ concat blobs) = concat blobs"
    by (rule drop_exact [OF l2])
  then have dr: "drop (8 * (length blobs + 2)) env = concat blobs"
    by (simp only: env' append_assoc)
  have c: "set_header_offset (length blobs) w env = ?c0 @ concat (?cs @ [w]) @ concat blobs"
    by (simp only: set_header_offset_def tk dr) simp
  have len: "length (?c0 @ concat (?cs @ [w]) @ concat blobs) = length env"
    by (simp add: env' w length_q_bytes)
  have cs: "list_all (\<lambda>c. length c = 8) (?cs @ [w])"
    by (simp add: list_all_iff length_q_bytes w)
  have cnt: "q_value bo ?c0 + 1 = int (length (?cs @ [w]))"
    using rng by (simp add: q_value_q_bytes)
  have ne: "?cs @ [w] \<noteq> []"
    by simp
  have lastv: "last (map (q_value bo) (?cs @ [w])) = q_value bo w"
    by simp
  have sz: "8 * int (length (?cs @ [w])) < 2 ^ 63"
    using b total_length_nonneg [of blobs] by (simp add: h_def)
  have "unpack_blobs bo (?c0 @ concat (?cs @ [w]) @ concat blobs) = Inl AssertionError"
    unfolding unpack_blobs_header [OF cs ne length_q_bytes cnt sz] lastv len
    using bad by simp
  then show ?thesis
    by (simp only: c)
qed

theorem corrupt_final_offset_detected_witness:
  "8 * (2 + int (length [[1, 2], [3, 4 :: byte]])) + int (length (concat [[1, 2], [3, 4 :: byte]]))
     < 2 ^ 63
   \<and> pack_blobs LittleEndian [[1, 2], [3, 4]]
       = Inr [2, 0, 0, 0, 0, 0, 0, 0,  32, 0, 0, 0, 0, 0, 0, 0,  34, 0, 0, 0, 0, 0, 0, 0,
              36, 0, 0, 0, 0, 0, 0, 0,  1, 2, 3, 4]
   \<and> length [35, 0, 0, 0, 0, 0, 0, 0 :: byte] = 8
   \<and> q_value LittleEndian [35, 0, 0, 0, 0, 0, 0, 0]
       \<noteq> int (length [2, 0, 0, 0, 0, 0, 0, 0,  32, 0, 0, 0, 0, 0, 0, 0,  34, 0, 0, 0, 0, 0, 0, 0,
                          36, 0, 0, 0, 0, 0, 0, 0,  1, 2, 3, 4 :: byte])
   \<and> unpack_blobs LittleEndian
        (set_header_offset (length [[1, 2], [3, 4 :: byte]]) [35, 0, 0, 0, 0, 0, 0, 0]
           [2, 0, 0, 0, 0, 0, 0, 0,  32, 0, 0, 0, 0, 0, 0, 0,  34, 0, 0, 0, 0, 0, 0, 0,
            36, 0, 0, 0, 0, 0, 0, 0,  1, 2, 3, 4])
       = Inl AssertionError"
proof -
  have h1: "8 * (2 + int (length [[1, 2], [3, 4 :: byte]]))
      + int (length (concat [[1, 2], [3, 4 :: byte]])) < 2 ^ 63"
    by simp
  have h2: "pack_blobs LittleEndian [[1, 2], [3, 4]]
       = Inr [2, 0, 0, 0, 0, 0, 0, 0,  32, 0, 0, 0, 0, 0, 0, 0,  34, 0, 0, 0, 0, 0, 0, 0,
              36, 0, 0, 0, 0, 0, 0, 0,  1, 2, 3, 4]"
    by code_simp
  have h3: "length [35, 0, 0, 0, 0, 0, 0, 0 :: byte] = 8"
    by simp
  have h4: "q_value LittleEndian [35, 0, 0, 0, 0, 0, 0, 0]
       \<noteq> int (length [2, 0, 0, 0, 0, 0, 0, 0,  32, 0, 0, 0, 0, 0, 0, 0,  34, 0, 0, 0, 0, 0, 0, 0,
                          36, 0, 0, 0, 0, 0, 0, 0,  1, 2, 3, 4 :: byte])"
    by code_simp
  from corrupt_final_offset_detected [OF h1 h2 h3 h4] h1 h2 h3 h4 show ?thesis
    by blast
qed

section \<open>Properties of the codecs\<close>

subsection \<open>The dispatch on a tag\<close>

lemma registry_lookup_tag:
  "t \<in> set module_tags \<Longrightarrow> registry_lookup (PStr t) = Inr t"
  by (simp add: registry_lookup_def)

lemma decode_variable:
  "decode X (PStr (lit ''variable'')) v None s =
     (if is_dict v then
        then_do (py_getitem v (lit ''type'')) (\<lambda>ty.
        then_do (py_getitem v (lit ''data'')) (\<lambda>d.
        decode X ty d None s))
      else Inr v)"
  by (subst decode.simps)
     (simp add: registry_lookup_def module_tags_def lit_inject then_do_def)

lemma decode_array:
  "decode X (PStr (lit ''array'')) v None s =
     then_do (py_getitem v (lit ''type'')) (\<lambda>ty.
     then_do (py_getitem v (lit ''data'')) (\<lambda>d.
     decode X ty d None s))"
  by (subst decode.simps)
     (simp add: registry_lookup_def module_tags_def lit_inject then_do_def)

lemma decode_ndarray:
  "decode X (PStr (lit ''ndarray'')) v None s = ndarray_decode X v s"
  by (subst decode.simps)
     (simp add: registry_lookup_def module_tags_def lit_inject then_do_def)

lemma decode_arrow_array:
  "decode X (PStr (lit ''arrow-array'')) v None s = arrow_array_decode X v s"
  by (subst decode.simps)
     (simp add: registry_lookup_def module_tags_def lit_inject then_do_def)

lemma decode_function:
  "decode X (PStr (lit ''function'')) v kwargs s = function_decode X v kwargs"
  by (subst decode.simps)
     (simp add: registry_lookup_def module_tags_def lit_inject then_do_def)

subsection \<open>\<^verbatim>\<open>variable\<close>: a \<^verbatim>\<open>bytes\<close> value\<close>

lemma utf8_decode_hi: "utf8_decode [104, 105] = Some [104, 105]"
  using utf8_ascii [of "[104, 105]"] by simp

text \<open>
  C10, as stated, fails for a \<^verbatim>\<open>bytes\<close> value that is not UTF-8: for the one byte
  \<^verbatim>\<open>0xFF\<close> the encoder raises \<^verbatim>\<open>UnicodeDecodeError\<close> and returns no string.
\<close>

theorem variable_encode_invalid_utf8:
  "\<forall>(X :: (unit, unit) externals) st.
     variable_encode X (PBytes [0xFF]) st = (Inl UnicodeDecodeError, st)"
  by (simp add: variable_encode_def utf8_decode_FF)

text \<open>
  C10, amended. For a \<^verbatim>\<open>bytes\<close> value that is valid UTF-8 the \<^verbatim>\<open>variable\<close> encoder returns
  the decoded text as a plain string, not a dictionary of \<^verbatim>\<open>type\<close> and \<^verbatim>\<open>data\<close>, and
  leaves the session as it was; the \<^verbatim>\<open>variable\<close> decoder passes that string through
  unchanged, so decoding the encoding gives a string and not the \<^verbatim>\<open>bytes\<close> value. For a
  \<^verbatim>\<open>bytes\<close> value that is not valid UTF-8 the encoder raises \<^verbatim>\<open>UnicodeDecodeError\<close>.
\<close>

theorem variable_encode_bytes:
  "(utf8_decode b = Some text \<longrightarrow>
      variable_encode X (PBytes b) st = (Inr (PStr text), st)
      \<and> decode X (PStr (lit ''variable'')) (PStr text) None s = Inr (PStr text)
      \<and> PStr text \<noteq> (PBytes b :: ('a, 'o) py))
   \<and> (utf8_decode b = None \<longrightarrow>
      variable_encode X (PBytes b) st = (Inl UnicodeDecodeError, st))"
  by (simp add: variable_encode_def decode_variable is_dict_def)

theorem variable_encode_bytes_witness:
  "\<forall>(X :: (unit, unit) externals) st s.
     utf8_decode [104, 105] = Some [104, 105]
     \<and> variable_encode X (PBytes [104, 105]) st = (Inr (PStr [104, 105]), st)
     \<and> decode X (PStr (lit ''variable'')) (PStr [104, 105]) None s = Inr (PStr [104, 105])
     \<and> utf8_decode [0xFF] = None
     \<and> variable_encode X (PBytes [0xFF]) st = (Inl UnicodeDecodeError, st)"
proof (intro allI)
  fix X :: "(unit, unit) externals" and st s
  show "utf8_decode [104, 105] = Some [104, 105]
     \<and> variable_encode X (PBytes [104, 105]) st = (Inr (PStr [104, 105]), st)
     \<and> decode X (PStr (lit ''variable'')) (PStr [104, 105]) None s = Inr (PStr [104, 105])
     \<and> utf8_decode [0xFF] = None
     \<and> variable_encode X (PBytes [0xFF]) st = (Inl UnicodeDecodeError, st)"
    using variable_encode_bytes [of "[104, 105]" "[104, 105]" X st s]
      variable_encode_bytes [of "[0xFF]" "[]" X st s] utf8_decode_hi utf8_decode_FF
    by blast
qed

subsection \<open>\<^verbatim>\<open>function\<close>: the \<^verbatim>\<open>trusted\<close> flag\<close>

text \<open>
  C7, as stated, fails: the flag is not mandatory. A call of the \<^verbatim>\<open>function\<close> decoder
  without the flag is accepted; for a spec that is not \<^verbatim>\<open>None\<close> it calls \<^verbatim>\<open>from_dict\<close> with
  \<^verbatim>\<open>trusted=False\<close>.
\<close>

theorem function_decode_flag_omitted:
  "\<forall>(X :: (unit, unit) externals) s.
     decode X (PStr (lit ''function'')) PNone None s = Inr PNone
     \<and> decode X (PStr (lit ''function'')) (PDict []) None s = ext_from_dict X (PDict []) False"
  by (simp add: decode_function function_decode_def)

text \<open>
  C7, amended. The flag of the \<^verbatim>\<open>function\<close> decoder is optional and its default is
  \<^verbatim>\<open>False\<close>: a call without it is the call with \<^verbatim>\<open>trusted=False\<close>, so the flag is never
  defaulted to trusted. A spec that is \<^verbatim>\<open>None\<close> decodes to \<^verbatim>\<open>None\<close>; any other spec goes to
  \<^verbatim>\<open>vaex.serialize.from_dict\<close> with the flag unchanged, and what an untrusted spec may
  build is decided there.
\<close>

theorem function_decode_trusted_default:
  "decode X (PStr (lit ''function'')) spec None s
     = decode X (PStr (lit ''function'')) spec (Some False) s
   \<and> decode X (PStr (lit ''function'')) spec (Some t) s
     = (if spec = PNone then Inr PNone else ext_from_dict X spec t)"
  by (simp add: decode_function function_decode_def)

subsection \<open>\<^verbatim>\<open>arrow-array\<close>: the legacy key\<close>







subsection \<open>\<^verbatim>\<open>array\<close> and \<^verbatim>\<open>ndarray\<close>: encoding and decoding an array\<close>

text \<open>
  The shape that the encoder writes is read back as it is, and a buffer of whole items
  takes that shape exactly when it holds as many items as the shape has.
\<close>

lemma shape_arg_tuple:
  "shape_arg (PTuple (map (\<lambda>n. PInt (int n)) shape)) = Inr (map int shape)"
proof -
  have "sequence_results
          (map (\<lambda>x. case x of PInt n \<Rightarrow> Inr n | _ \<Rightarrow> Inl TypeError)
             (map (\<lambda>n. PInt (int n) :: ('a, 'b) py) shape))
      = (Inr (map int shape) :: py_error + int list)"
    by (induction shape) simp_all
  then show ?thesis
    by (simp add: shape_arg_def)
qed

lemma np_reshape_exact:
  "np_reshape n (map int shape) = (if prod_list shape = n then Inr shape else Inl ValueError)"
proof -
  have a: "\<not> list_ex (\<lambda>d. d < - 1) (map int shape)"
    by (simp add: list_ex_iff)
  have b: "filter (\<lambda>d. d = - 1) (map int shape) = []"
    by (auto simp: filter_empty_conv)
  have c: "\<not> list_ex (\<lambda>d. d = - 1) (map int shape)"
    by (auto simp: list_ex_iff)
  have d: "map nat (map int shape) = shape"
    by (simp add: comp_def)
  show ?thesis
    by (simp only: np_reshape_def a b c d if_False list.size) simp
qed

lemma frombuffer_reshape_tuple:
  assumes "dt_kind dt \<noteq> CHR ''O''" and "0 < dt_itemsize dt"
      and "length b = k * dt_itemsize dt"
  shows "frombuffer_reshape b dt (PTuple (map (\<lambda>n. PInt (int n)) shape))
     = (if prod_list shape = k then Inr shape else Inl ValueError)"
  using assms
  by (simp add: frombuffer_reshape_def np_frombuffer_def shape_arg_tuple np_reshape_exact)

lemma get_blob_ref:
  "map_of (session_blobs s) (PStr u) = Some b \<Longrightarrow> get_blob (PStr (lit ''blob:'' @ u)) s = Inr b"
  by (simp add: get_blob_def startswith_append length_lit)

lemma ndarray_encode_buffer:
  assumes "dt_kind dt \<noteq> CHR ''O''"
  shows "ndarray_encode X (PNdarray dt shape (Buffer b) m) (s, n) =
     (if m = NotMasked then
        (Inr (PDict [(lit ''values'', PStr (lit ''blob:'' @ ext_uuid4 X n)),
                     (lit ''shape'', PTuple (map (\<lambda>n. PInt (int n)) shape)),
                     (lit ''dtype'', PStr (dt_str dt))]),
         (s\<lparr>session_blobs := AList.update (PStr (ext_uuid4 X n)) b (session_blobs s)\<rparr>,
          Suc n))
      else
        (Inr (PDict [(lit ''values'', PStr (lit ''blob:'' @ ext_uuid4 X n)),
                     (lit ''shape'', PTuple (map (\<lambda>n. PInt (int n)) shape)),
                     (lit ''dtype'', PStr (dt_str dt)),
                     (lit ''mask'', PStr (lit ''blob:'' @ ext_uuid4 X (Suc n)))]),
         (s\<lparr>session_blobs :=
              AList.update (PStr (ext_uuid4 X (Suc n))) (mask_tobytes m)
                (AList.update (PStr (ext_uuid4 X n)) b (session_blobs s))\<rparr>,
          Suc (Suc n))))"
  using assms
  by (simp add: ndarray_encode_def draw_blob_def add_blob_def nd_tobytes_def Let_def lit_inject)


lemma ndarray_decode_dict:
  assumes kind: "dt_kind dt \<noteq> CHR ''O''" and item: "0 < dt_itemsize dt"
      and len: "length b = prod_list shape * dt_itemsize dt"
      and dty: "dtype_decode X (PStr (dt_str dt)) = Inr (NumpyType dt)"
      and k1: "map_of kvs (lit ''dtype'') = Some (PStr (dt_str dt))"
      and k2: "map_of kvs (lit ''shape'') = Some (PTuple (map (\<lambda>n. PInt (int n)) shape))"
      and k3: "map_of kvs (lit ''values'') = Some (PStr (lit ''blob:'' @ u))"
      and blob: "map_of (session_blobs s) (PStr u) = Some b"
  shows "ndarray_decode X (PDict kvs) s =
     then_do (ndarray_decode_mask (PDict kvs) (PTuple (map (\<lambda>n. PInt (int n)) shape)) shape s)
       (\<lambda>m. Inr (PNdarray dt shape (Buffer b) m))"
proof -
  have v: "ndarray_decode_values X (PDict kvs) dt (PTuple (map (\<lambda>n. PInt (int n)) shape)) s
      = Inr (dt, shape, Buffer b)"
    using kind
    by (simp add: ndarray_decode_values_def py_getitem_def k3 then_do_def get_blob_ref [OF blob]
        frombuffer_reshape_tuple [OF kind item len])
  show ?thesis
    by (simp add: ndarray_decode_one_def py_getitem_def k1 k2 dty datatype_numpy_def v
        then_do_def split: sum.splits)
qed

lemma ndarray_decode_mask_absent:
  "map_of kvs (lit ''mask'') = None \<Longrightarrow>
     ndarray_decode_mask (PDict kvs) shape_tuple shape s = Inr NotMasked"
  by (simp add: ndarray_decode_mask_def py_contains_def then_do_def)

lemma ndarray_decode_mask_present:
  assumes "map_of kvs (lit ''mask'') = Some (PStr (lit ''blob:'' @ u) :: ('a, 'o) py)"
      and "map_of (session_blobs s) (PStr u) = Some mb"
  shows "ndarray_decode_mask (PDict kvs) (PTuple (map (\<lambda>n. PInt (int n)) shape)) shape s
     = (if prod_list shape = length mb then Inr (MaskArray shape mb) else Inl ValueError)"
proof -
  have "frombuffer_reshape mb np_bool (PTuple (map (\<lambda>n. PInt (int n)) shape) :: ('a, 'o) py)
      = (if prod_list shape = length mb then Inr shape else Inl ValueError)"
    by (rule frombuffer_reshape_tuple) (simp_all add: np_bool_def)
  then show ?thesis
    using assms
    by (simp add: ndarray_decode_mask_def py_contains_def py_getitem_def then_do_def
        get_blob_ref np_ma_array_def)
qed

lemma array_round_trip:
  assumes kind: "dt_kind dt \<noteq> CHR ''O''" and item: "0 < dt_itemsize dt"
      and len: "length b = prod_list shape * dt_itemsize dt"
      and dty: "dtype_decode X (PStr (dt_str dt)) = Inr (NumpyType dt)"
      and ids: "ext_uuid4 X n \<noteq> ext_uuid4 X (Suc n)"
      and enc: "array_encode X (PNdarray dt shape (Buffer b) m) (s, n) = (r, st')"
  shows "\<exists>e. r = Inr e \<and>
           decode X (PStr (lit ''array'')) e None (fst st') =
             (if m = NotMasked then Inr (PNdarray dt shape (Buffer b) NotMasked)
              else if prod_list shape = length (mask_tobytes m)
              then Inr (PNdarray dt shape (Buffer b) (MaskArray shape (mask_tobytes m)))
              else Inl ValueError)"
proof (cases "m = NotMasked")
  case True
  let ?kvs = "[(lit ''values'', PStr (lit ''blob:'' @ ext_uuid4 X n)),
               (lit ''shape'', PTuple (map (\<lambda>n. PInt (int n)) shape)),
               (lit ''dtype'', PStr (dt_str dt))] :: (pystr \<times> ('a, 'b) py) list"
  let ?s = "s\<lparr>session_blobs := AList.update (PStr (ext_uuid4 X n)) b (session_blobs s)\<rparr>"
  have r: "r = Inr (tagged ''ndarray'' (PDict ?kvs))" and st: "fst st' = ?s"
    using enc True
    by (auto simp: array_encode_def ndarray_encode_buffer [OF kind] tag_result_def)
  have d: "ndarray_decode X (PDict ?kvs) ?s = Inr (PNdarray dt shape (Buffer b) NotMasked)"
    by (subst ndarray_decode_dict [OF kind item len dty, where u = "ext_uuid4 X n"])
       (simp_all add: lit_inject update_conv' ndarray_decode_mask_absent then_do_def)
  have "decode X (PStr (lit ''array'')) (tagged ''ndarray'' (PDict ?kvs)) None ?s
      = Inr (PNdarray dt shape (Buffer b) NotMasked)"
    by (simp add: decode_array tagged_def py_getitem_def lit_inject then_do_def decode_ndarray
        d del: ndarray_decode.simps)
  then show ?thesis
    using True r st by simp
next
  case False
  let ?kvs = "[(lit ''values'', PStr (lit ''blob:'' @ ext_uuid4 X n)),
               (lit ''shape'', PTuple (map (\<lambda>n. PInt (int n)) shape)),
               (lit ''dtype'', PStr (dt_str dt)),
               (lit ''mask'', PStr (lit ''blob:'' @ ext_uuid4 X (Suc n)))]
              :: (pystr \<times> ('a, 'b) py) list"
  let ?s = "s\<lparr>session_blobs :=
              AList.update (PStr (ext_uuid4 X (Suc n))) (mask_tobytes m)
                (AList.update (PStr (ext_uuid4 X n)) b (session_blobs s))\<rparr>"
  have r: "r = Inr (tagged ''ndarray'' (PDict ?kvs))" and st: "fst st' = ?s"
    using enc False
    by (auto simp: array_encode_def ndarray_encode_buffer [OF kind] tag_result_def)
  have m: "ndarray_decode_mask (PDict ?kvs) (PTuple (map (\<lambda>n. PInt (int n)) shape)) shape ?s
      = (if prod_list shape = length (mask_tobytes m)
         then Inr (MaskArray shape (mask_tobytes m)) else Inl ValueError)"
    by (rule ndarray_decode_mask_present [where u = "ext_uuid4 X (Suc n)"])
       (simp_all add: lit_inject update_conv')
  have d: "ndarray_decode X (PDict ?kvs) ?s =
      (if prod_list shape = length (mask_tobytes m)
       then Inr (PNdarray dt shape (Buffer b) (MaskArray shape (mask_tobytes m)))
       else Inl ValueError)"
    using ids
    by (subst ndarray_decode_dict [OF kind item len dty, where u = "ext_uuid4 X n"])
       (simp_all add: lit_inject update_conv' m then_do_def)
  have "decode X (PStr (lit ''array'')) (tagged ''ndarray'' (PDict ?kvs)) None ?s
      = (if prod_list shape = length (mask_tobytes m)
         then Inr (PNdarray dt shape (Buffer b) (MaskArray shape (mask_tobytes m)))
         else Inl ValueError)"
    by (simp add: decode_array tagged_def py_getitem_def lit_inject then_do_def decode_ndarray
        d del: ndarray_decode.simps)
  then show ?thesis
    using False r st by simp
qed


lemma array_encode_ndarray:
  assumes kind: "dt_kind dt \<noteq> CHR ''O''"
      and enc: "array_encode X (PNdarray dt shape (Buffer b) m) (s, n) = (r, st')"
  shows "\<exists>data. r = Inr (tagged ''ndarray'' data)
           \<and> py_contains (lit ''mask'') data = Inr (m \<noteq> NotMasked)"
proof (cases "m = NotMasked")
  case True
  then show ?thesis
    using enc
    by (auto simp: array_encode_def ndarray_encode_buffer [OF kind] tag_result_def
        py_contains_def lit_inject)
next
  case False
  then show ?thesis
    using enc
    by (auto simp: array_encode_def ndarray_encode_buffer [OF kind] tag_result_def
        py_contains_def lit_inject)
qed

text \<open>
  C1. An array whose dtype is not \<^verbatim>\<open>object\<close> (numeric, boolean, temporal), whose buffer
  holds the items of its shape and whose dtype \<^verbatim>\<open>np.dtype\<close> reads back from its name, is
  encoded by the \<^verbatim>\<open>array\<close> codec under the tag \<^verbatim>\<open>ndarray\<close>, with the key \<^verbatim>\<open>mask\<close> exactly
  when it is a masked array; the two ids drawn are different. Decoding in the session
  that the encoder leaves gives
  \<^item> for a plain array, the array: same dtype, shape and bytes, and no mask;
  \<^item> for a masked array whose mask is an array of as many items as the data, the
    masked array with the bytes of that mask;
  \<^item> for a masked array whose mask is \<^verbatim>\<open>numpy.ma.nomask\<close>, \<^verbatim>\<open>ValueError\<close>, unless the array
    has one item: the encoder writes the one byte of the scalar \<^verbatim>\<open>nomask\<close> as the mask
    blob, and the decoder cannot give it the shape of the data.
\<close>

theorem array_round_trip_nomask:
  assumes kind: "dt_kind dt \<noteq> CHR ''O''" and item: "0 < dt_itemsize dt"
      and len: "length b = prod_list shape * dt_itemsize dt"
      and dty: "dtype_decode X (PStr (dt_str dt)) = Inr (NumpyType dt)"
      and ids: "ext_uuid4 X n \<noteq> ext_uuid4 X (Suc n)"
  shows "\<exists>data st'.
           array_encode X (PNdarray dt shape (Buffer b) m) (s, n)
             = (Inr (tagged ''ndarray'' data), st')
           \<and> py_contains (lit ''mask'') data = Inr (m \<noteq> NotMasked)
           \<and> decode X (PStr (lit ''array'')) (tagged ''ndarray'' data) None (fst st') =
               (case m of
                  NotMasked \<Rightarrow> Inr (PNdarray dt shape (Buffer b) NotMasked)
                | MaskArray mshape mbytes \<Rightarrow>
                    if prod_list shape = length mbytes
                    then Inr (PNdarray dt shape (Buffer b) (MaskArray shape mbytes))
                    else Inl ValueError
                | NoMask \<Rightarrow>
                    if prod_list shape = 1
                    then Inr (PNdarray dt shape (Buffer b) (MaskArray shape [0]))
                    else Inl ValueError)"
proof -
  obtain r st' where enc: "array_encode X (PNdarray dt shape (Buffer b) m) (s, n) = (r, st')"
    by (cases "array_encode X (PNdarray dt shape (Buffer b) m) (s, n)")
  obtain data where r: "r = Inr (tagged ''ndarray'' data)"
    and key: "py_contains (lit ''mask'') data = Inr (m \<noteq> NotMasked)"
    using array_encode_ndarray [OF kind enc] by blast
  have "decode X (PStr (lit ''array'')) (tagged ''ndarray'' data) None (fst st') =
      (if m = NotMasked then Inr (PNdarray dt shape (Buffer b) NotMasked)
       else if prod_list shape = length (mask_tobytes m)
       then Inr (PNdarray dt shape (Buffer b) (MaskArray shape (mask_tobytes m)))
       else Inl ValueError)"
    using array_round_trip [OF kind item len dty ids enc] r by simp
  then have "decode X (PStr (lit ''array'')) (tagged ''ndarray'' data) None (fst st') =
      (case m of
         NotMasked \<Rightarrow> Inr (PNdarray dt shape (Buffer b) NotMasked)
       | MaskArray mshape mbytes \<Rightarrow>
           if prod_list shape = length mbytes
           then Inr (PNdarray dt shape (Buffer b) (MaskArray shape mbytes))
           else Inl ValueError
       | NoMask \<Rightarrow>
           if prod_list shape = 1
           then Inr (PNdarray dt shape (Buffer b) (MaskArray shape [0]))
           else Inl ValueError)"
    by (cases m) (simp_all add: mask_tobytes_def)
  with enc r key show ?thesis
    by blast
qed

theorem array_round_trip_nomask_witness:
  "dt_kind example_int64 \<noteq> CHR ''O'' \<and> 0 < dt_itemsize example_int64
   \<and> length example_values = prod_list [3] * dt_itemsize example_int64
   \<and> dtype_decode example_externals (PStr (dt_str example_int64)) = Inr (NumpyType example_int64)
   \<and> ext_uuid4 example_externals 0 \<noteq> ext_uuid4 example_externals (Suc 0)
   \<and> (\<exists>data st'.
          array_encode example_externals (PNdarray example_int64 [3] (Buffer example_values) NoMask)
            (new_session, 0)
            = (Inr (tagged ''ndarray'' data), st')
          \<and> py_contains (lit ''mask'') data = Inr True
          \<and> decode example_externals (PStr (lit ''array'')) (tagged ''ndarray'' data) None (fst st')
              = Inl ValueError)"
proof -
  have h1: "dt_kind example_int64 \<noteq> CHR ''O''"
    by simp
  have h2: "0 < dt_itemsize example_int64"
    by simp
  have h3: "length example_values = prod_list [3] * dt_itemsize example_int64"
    by simp
  have h4: "dtype_decode example_externals (PStr (dt_str example_int64))
      = Inr (NumpyType example_int64)"
    by (simp add: dtype_decode_def ext_np_dtype_def lit_inject)
  have h5: "ext_uuid4 example_externals 0 \<noteq> ext_uuid4 example_externals (Suc 0)"
    by (simp add: ext_uuid4_def)
  have c: "\<exists>data st'.
          array_encode example_externals (PNdarray example_int64 [3] (Buffer example_values) NoMask)
            (new_session, 0)
            = (Inr (tagged ''ndarray'' data), st')
          \<and> py_contains (lit ''mask'') data = Inr True
          \<and> decode example_externals (PStr (lit ''array'')) (tagged ''ndarray'' data) None (fst st')
              = Inl ValueError"
    using array_round_trip_nomask [OF h1 h2 h3 h4 h5, of NoMask new_session] by simp
  show ?thesis
    by (intro conjI h1 h2 h3 h4 h5 c)
qed


section \<open>Properties of \<^verbatim>\<open>binary.serialize\<close> and \<^verbatim>\<open>binary.deserialize\<close>\<close>











end
